theory Spec2Isabelle
  imports Complex_Main "HOL-Library.Sublist" "HOL-Library.Multiset"
begin

section \<open>JavaScript values\<close>

text \<open>
  A JavaScript number is NaN, an infinity, or a finite double. Finite doubles are
  modelled by their exact real value: every operation the code applies to them
  (comparison with zero, truthiness, the sign of a difference, \<^verbatim>\<open>toFixed\<close>) is defined by
  ECMA-262 on the exact mathematical value, so a statement proved for every real holds
  for every double. The two zeros \<^verbatim>\<open>+0\<close> and \<^verbatim>\<open>-0\<close> are one value \<open>Fin 0\<close>: they are
  indistinguishable to \<^verbatim>\<open>||\<close>, to \<^verbatim>\<open>!==\<close>, to a comparison with zero, to the sort
  comparator and, after \<^verbatim>\<open>(x||0)\<close>, to \<^verbatim>\<open>toFixed\<close>.
\<close>

datatype number = NaN | Fin real | PosInf | NegInf

text \<open>The scalar values a cell of an imported row can hold.\<close>

datatype jsval = VUndef | VNum number | VStr string | VBool bool

text \<open>
  A row is a plain object; it is represented by its own enumerable properties in the
  order \<^verbatim>\<open>Object.keys\<close> lists them.
\<close>

type_synonym row = "(string \<times> jsval) list"

text \<open>\<^verbatim>\<open>ToBoolean\<close> on a number: NaN and zero are falsy.\<close>

definition truthy :: "number \<Rightarrow> bool" where
  "truthy n = (case n of NaN \<Rightarrow> False | Fin x \<Rightarrow> x \<noteq> 0 | PosInf \<Rightarrow> True | NegInf \<Rightarrow> True)"

text \<open>\<^verbatim>\<open>a || b\<close> on numbers and on strings (the empty string is falsy).\<close>

definition num_or :: "number \<Rightarrow> number \<Rightarrow> number" where
  "num_or a b = (if truthy a then a else b)"

definition str_or :: "string \<Rightarrow> string \<Rightarrow> string" where
  "str_or a b = (if a \<noteq> [] then a else b)"

definition isNaN :: "number \<Rightarrow> bool" where
  "isNaN n = (n = NaN)"

text \<open>\<^verbatim>\<open>n > 0\<close> and \<^verbatim>\<open>n !== 0\<close>.\<close>

definition gt_zero :: "number \<Rightarrow> bool" where
  "gt_zero n = (case n of NaN \<Rightarrow> False | Fin x \<Rightarrow> 0 < x | PosInf \<Rightarrow> True | NegInf \<Rightarrow> False)"

definition neq_zero :: "number \<Rightarrow> bool" where
  "neq_zero n = (n \<noteq> Fin 0)"

subsection \<open>Strings\<close>

text \<open>
  Strings are ASCII text. \<^verbatim>\<open>toLowerCase\<close> maps the letters A to Z to a to z and leaves every
  other character as it is.
\<close>

definition lower_char :: "char \<Rightarrow> char" where
  "lower_char c =
     (case map_of (zip ''ABCDEFGHIJKLMNOPQRSTUVWXYZ'' ''abcdefghijklmnopqrstuvwxyz'') c of
        Some d \<Rightarrow> d
      | None \<Rightarrow> c)"

definition toLowerCase :: "string \<Rightarrow> string" where
  "toLowerCase s = map lower_char s"

text \<open>\<^verbatim>\<open>s.includes(t)\<close>: \<open>t\<close> occurs in \<open>s\<close> as a contiguous substring.\<close>

fun str_includes :: "string \<Rightarrow> string \<Rightarrow> bool" where
  "str_includes [] t = (t = [])"
| "str_includes (c # s) t = (prefix t (c # s) \<or> str_includes s t)"

text \<open>Decimal digits and the decimal rendering of a natural number.\<close>

definition is_digit :: "char \<Rightarrow> bool" where
  "is_digit c = (c \<in> set ''0123456789'')"

definition digit_val :: "char \<Rightarrow> nat" where
  "digit_val c =
     (case map_of (zip ''0123456789'' [0, 1, 2, 3, 4, 5, 6, 7, 8, 9]) c of
        Some d \<Rightarrow> d
      | None \<Rightarrow> 0)"

definition dec_val :: "string \<Rightarrow> nat" where
  "dec_val ds = foldl (\<lambda>a c. 10 * a + digit_val c) 0 ds"

definition digit_char :: "nat \<Rightarrow> char" where
  "digit_char d = ''0123456789'' ! (d mod 10)"

fun show_nat :: "nat \<Rightarrow> string" where
  "show_nat n = (if n < 10 then [digit_char n] else show_nat (n div 10) @ [digit_char n])"

declare show_nat.simps [simp del]

subsection \<open>parseFloat\<close>

text \<open>
  \<^verbatim>\<open>parseFloat(v)\<close> converts \<open>v\<close> to a string, skips leading white space and reads the
  longest prefix that is a \<^verbatim>\<open>StrDecimalLiteral\<close>: an optional sign, then \<^verbatim>\<open>Infinity\<close> or
  digits with an optional fraction and an optional complete exponent part. Without such a
  prefix the result is NaN. The value read is the exact decimal value; JavaScript rounds
  it to the nearest double, which no property below depends on. A number converts to a
  string that parses back to the same number, so \<open>parseFloat (VNum n) = n\<close>; the strings of
  \<^verbatim>\<open>undefined\<close>, \<^verbatim>\<open>true\<close> and \<^verbatim>\<open>false\<close> have no numeric prefix.
\<close>

text \<open>
  The white space of ASCII text: tab, line feed, vertical tab, form feed, carriage return
  and space. The no-break space and the other Unicode spaces that \<^verbatim>\<open>parseFloat\<close> and
  \<^verbatim>\<open>trim\<close> skip as well do not occur in ASCII text.
\<close>

definition str_white :: "char \<Rightarrow> bool" where
  "str_white c = (c \<in> {CHR 0x09, CHR 0x0A, CHR 0x0B, CHR 0x0C, CHR 0x0D, CHR '' ''})"

definition exponentPart :: "string \<Rightarrow> int" where
  "exponentPart s =
     (case s of
        [] \<Rightarrow> 0
      | e # r \<Rightarrow>
          if e = CHR ''e'' \<or> e = CHR ''E'' then
            (let neg = (r \<noteq> [] \<and> hd r = CHR ''-'');
                 r' = (if r \<noteq> [] \<and> (hd r = CHR ''-'' \<or> hd r = CHR ''+'') then tl r else r);
                 ds = takeWhile is_digit r'
             in if ds = [] then 0 else if neg then - int (dec_val ds) else int (dec_val ds))
          else 0)"

definition scale10 :: "real \<Rightarrow> int \<Rightarrow> real" where
  "scale10 m e = (if 0 \<le> e then m * 10 ^ nat e else m / 10 ^ nat (- e))"

definition parseDecimal :: "string \<Rightarrow> number" where
  "parseDecimal s =
     (let t = dropWhile str_white s;
          neg = (t \<noteq> [] \<and> hd t = CHR ''-'');
          u = (if t \<noteq> [] \<and> (hd t = CHR ''-'' \<or> hd t = CHR ''+'') then tl t else t)
      in if prefix ''Infinity'' u then (if neg then NegInf else PosInf)
         else
           (let ip = takeWhile is_digit u;
                r1 = dropWhile is_digit u;
                dot = (r1 \<noteq> [] \<and> hd r1 = CHR ''.'');
                fp = (if dot then takeWhile is_digit (tl r1) else []);
                r2 = (if dot then dropWhile is_digit (tl r1) else r1)
            in if ip = [] \<and> fp = [] then NaN
               else
                 (let m = real (dec_val ip) + real (dec_val fp) / 10 ^ length fp;
                      v = scale10 m (exponentPart r2)
                  in Fin (if neg then - v else v))))"

definition parseFloat :: "jsval \<Rightarrow> number" where
  "parseFloat v =
     (case v of
        VUndef \<Rightarrow> NaN
      | VNum n \<Rightarrow> n
      | VStr s \<Rightarrow> parseDecimal s
      | VBool b \<Rightarrow> NaN)"

text \<open>
  \<^verbatim>\<open>String(v)\<close>. The decimal rendering of a finite number (the shortest digits that read
  back as the same double) belongs to the platform, not to the repository: it is the
  parameter \<open>dtoa\<close> of every function that renders a number.
\<close>

definition numberToString :: "(real \<Rightarrow> string) \<Rightarrow> number \<Rightarrow> string" where
  "numberToString dtoa n =
     (case n of
        NaN \<Rightarrow> ''NaN''
      | Fin x \<Rightarrow> dtoa x
      | PosInf \<Rightarrow> ''Infinity''
      | NegInf \<Rightarrow> ''-Infinity'')"

definition toString :: "(real \<Rightarrow> string) \<Rightarrow> jsval \<Rightarrow> string" where
  "toString dtoa v =
     (case v of
        VUndef \<Rightarrow> ''undefined''
      | VNum n \<Rightarrow> numberToString dtoa n
      | VStr s \<Rightarrow> s
      | VBool b \<Rightarrow> (if b then ''true'' else ''false''))"

section \<open>The field resolver (ProjectBuilder.tsx)\<close>

text \<open>\<^verbatim>\<open>row[k]\<close>: the value of property \<open>k\<close>, \<^verbatim>\<open>undefined\<close> when the row has none.\<close>

definition getProp :: "row \<Rightarrow> string \<Rightarrow> jsval" where
  "getProp r k = (case map_of r k of Some v \<Rightarrow> v | None \<Rightarrow> VUndef)"

text \<open>
  The search both resolvers run:
  \<^verbatim>\<open>Object.keys(row).find(k => k.toLowerCase().includes(keyPart.toLowerCase()))\<close>.
\<close>

definition key_matches :: "string \<Rightarrow> string \<Rightarrow> bool" where
  "key_matches keyPart k = str_includes (toLowerCase k) (toLowerCase keyPart)"

definition findKey :: "row \<Rightarrow> string \<Rightarrow> string option" where
  "findKey r keyPart = find (key_matches keyPart) (map fst r)"

text \<open>
  \<^verbatim>\<open>fuzzyGet\<close>. The test \<^verbatim>\<open>if (match)\<close> fails when nothing was found and also when the key
  found is the empty string. The guard \<^verbatim>\<open>if (!row) return 0\<close> never fires on an object.
\<close>

definition fuzzyGet :: "row \<Rightarrow> string \<Rightarrow> number" where
  "fuzzyGet r keyPart =
     (case findKey r keyPart of
        None \<Rightarrow> Fin 0
      | Some k \<Rightarrow>
          if k \<noteq> [] then
            (let v = parseFloat (getProp r k) in if isNaN v then Fin 0 else v)
          else Fin 0)"

definition fuzzyGetStr :: "(real \<Rightarrow> string) \<Rightarrow> row \<Rightarrow> string \<Rightarrow> string" where
  "fuzzyGetStr dtoa r keyPart =
     (case findKey r keyPart of
        None \<Rightarrow> []
      | Some k \<Rightarrow> if k \<noteq> [] then toString dtoa (getProp r k) else [])"

section \<open>The normalizer (ProjectBuilder.tsx)\<close>

record ChemicalData =
  sampleID :: nat
  SiO2 :: number
  Al2O3 :: number
  FexOy :: number
  Na2O :: number
  K2O :: number
  CaO :: number
  MgO :: number
  TiO2 :: number
  source :: "string option"
  temperature :: number
  viscosityValue :: number
  Remark :: "string option"
  actualMeasuredData :: "nat option"

text \<open>The object the \<^verbatim>\<open>map\<close> callback of \<^verbatim>\<open>processImportedData\<close> builds for row \<open>idx\<close>.\<close>

definition parsedRow :: "(real \<Rightarrow> string) \<Rightarrow> nat \<Rightarrow> row \<Rightarrow> ChemicalData" where
  "parsedRow dtoa idx r =
     \<lparr> sampleID = idx + 1,
       SiO2 = fuzzyGet r ''SiO2'',
       Al2O3 = fuzzyGet r ''Al2O3'',
       FexOy = num_or (fuzzyGet r ''Fe'') (fuzzyGet r ''FexOy''),
       Na2O = fuzzyGet r ''Na2O'',
       K2O = fuzzyGet r ''K2O'',
       CaO = fuzzyGet r ''CaO'',
       MgO = fuzzyGet r ''MgO'',
       TiO2 = fuzzyGet r ''TiO2'',
       source = None,
       temperature = num_or (fuzzyGet r ''temp'') (fuzzyGet r ''temperature''),
       viscosityValue =
         num_or (num_or (fuzzyGet r ''viscosity'') (fuzzyGet r ''log10'')) (fuzzyGet r ''Value''),
       Remark =
         Some (str_or (str_or (fuzzyGetStr dtoa r ''remark'') (fuzzyGetStr dtoa r ''source''))
                 (fuzzyGetStr dtoa r ''name'')),
       actualMeasuredData = Some 1 \<rparr>"

definition parsedData :: "(real \<Rightarrow> string) \<Rightarrow> row list \<Rightarrow> ChemicalData list" where
  "parsedData dtoa rawData = map (\<lambda>(idx, r). parsedRow dtoa idx r) (enumerate 0 rawData)"

text \<open>The filter predicate of \<^verbatim>\<open>validData\<close>.\<close>

definition accepted :: "ChemicalData \<Rightarrow> bool" where
  "accepted d = (gt_zero (temperature d) \<and> (neq_zero (viscosityValue d) \<or> neq_zero (SiO2 d)))"

definition validData :: "(real \<Rightarrow> string) \<Rightarrow> row list \<Rightarrow> ChemicalData list" where
  "validData dtoa rawData = filter accepted (parsedData dtoa rawData)"

text \<open>
  What a handler does that the rest of the application can observe: the calls of the two
  callbacks, of \<^verbatim>\<open>alert\<close> and of \<^verbatim>\<open>console.error\<close>, in order. The alert texts are Chinese
  sentences; \<open>NoValidData\<close> is the one that says no valid data was parsed and asks for a
  header line, \<open>ProcessingFailed\<close> the one of the catch block of \<^verbatim>\<open>processImportedData\<close>,
  \<open>CsvParseFailed\<close> and \<open>ExcelParseFailed\<close> those of the two catch blocks of
  \<^verbatim>\<open>handleFileUpload\<close>.
\<close>

datatype message = NoValidData | ProcessingFailed | CsvParseFailed | ExcelParseFailed

datatype event =
    DataLoaded "ChemicalData list"
  | Connect string string
  | Alert message
  | ConsoleError

text \<open>
  \<^verbatim>\<open>processImportedData\<close>. No statement of its \<^verbatim>\<open>try\<close> block raises on rows of scalar cells,
  so the catch block is never entered.
\<close>

definition processImportedData :: "(real \<Rightarrow> string) \<Rightarrow> row list \<Rightarrow> event list" where
  "processImportedData dtoa rawData =
     (let valid = validData dtoa rawData
      in if length valid > 0 then
           [DataLoaded valid,
            Connect ''Imported File'' (''Found '' @ show_nat (length valid) @ '' rows'')]
         else [Alert NoValidData])"

section \<open>The application state (App)\<close>

record app_state =
  viscosityData :: "ChemicalData list"
  isConnected :: bool
  connectedDbInfo :: "(string \<times> string) option"

definition handleDbConnect :: "string \<Rightarrow> string \<Rightarrow> app_state \<Rightarrow> app_state" where
  "handleDbConnect host db st = st\<lparr>connectedDbInfo := Some (host, db), isConnected := True\<rparr>"

definition handleDataLoaded :: "ChemicalData list \<Rightarrow> app_state \<Rightarrow> app_state" where
  "handleDataLoaded data st = st\<lparr>viscosityData := data, isConnected := True\<rparr>"

text \<open>
  \<^verbatim>\<open>App\<close> passes \<^verbatim>\<open>handleDbConnect\<close> as \<^verbatim>\<open>onConnect\<close> and \<^verbatim>\<open>handleDataLoaded\<close> as
  \<^verbatim>\<open>onDataLoaded\<close>; an alert and a console message leave the state alone.
\<close>

fun dispatch :: "app_state \<Rightarrow> event \<Rightarrow> app_state" where
  "dispatch st (DataLoaded data) = handleDataLoaded data st"
| "dispatch st (Connect host db) = handleDbConnect host db st"
| "dispatch st (Alert m) = st"
| "dispatch st ConsoleError = st"

section \<open>Delimited-text and spreadsheet upload (ProjectBuilder.tsx)\<close>

text \<open>
  \<^verbatim>\<open>s.trim()\<close> and \<^verbatim>\<open>s.split(c)\<close> for a one-character separator. A split has one piece at
  least: a character that is not the separator joins the first piece of the split of the
  rest.
\<close>

definition trim :: "string \<Rightarrow> string" where
  "trim s = rev (dropWhile str_white (rev (dropWhile str_white s)))"

fun split_on :: "char \<Rightarrow> string \<Rightarrow> string list" where
  "split_on c [] = [[]]"
| "split_on c (x # xs) =
     (if x = c then [] # split_on c xs
      else (case split_on c xs of p # ps \<Rightarrow> (x # p) # ps | [] \<Rightarrow> [[x]]))"

text \<open>
  The object the header loop fills, \<^verbatim>\<open>obj[h] = values[i]\<close>, kept in insertion order while
  it is built. Assigning to an existing key replaces its value in place. Assigning a string
  or \<^verbatim>\<open>undefined\<close> to \<^verbatim>\<open>__proto__\<close> calls the inherited setter, which ignores a value that is
  not an object: no property is created.
\<close>

definition assign :: "row \<Rightarrow> string \<Rightarrow> jsval \<Rightarrow> row" where
  "assign obj h v =
     (if h = ''__proto__'' then obj
      else if h \<in> fst ` set obj then map (\<lambda>(k, x). if k = h then (k, v) else (k, x)) obj
      else obj @ [(h, v)])"

text \<open>
  \<^verbatim>\<open>Object.keys\<close> lists the keys that are array indices (canonical decimal numerals below
  \<open>2^32 - 1\<close>) first, in ascending numeric order, then the other keys in insertion order.
\<close>

definition is_array_index :: "string \<Rightarrow> bool" where
  "is_array_index k =
     (k \<noteq> [] \<and> list_all is_digit k \<and> (k = ''0'' \<or> hd k \<noteq> CHR ''0'') \<and> dec_val k < 2 ^ 32 - 1)"

definition ownKeysOrder :: "row \<Rightarrow> row" where
  "ownKeysOrder obj =
     sort_key (\<lambda>(k, v). dec_val k) (filter (\<lambda>(k, v). is_array_index k) obj)
       @ filter (\<lambda>(k, v). \<not> is_array_index k) obj"

definition csvRow :: "string list \<Rightarrow> string \<Rightarrow> row" where
  "csvRow headers rowStr =
     (let values = split_on CHR '','' rowStr
      in ownKeysOrder
           (foldl (\<lambda>obj (i, h). assign obj h (if i < length values then VStr (values ! i) else VUndef))
              [] (enumerate 0 headers)))"

text \<open>
  The \<^verbatim>\<open>onload\<close> callback of the text reader. No statement of its \<^verbatim>\<open>try\<close> block raises, so
  its catch block (\<open>CsvParseFailed\<close>) is never entered.
\<close>

definition handleTextLoaded :: "(real \<Rightarrow> string) \<Rightarrow> string \<Rightarrow> event list" where
  "handleTextLoaded dtoa txt =
     (if txt = [] then []
      else
        (let rows = filter (\<lambda>r. trim r \<noteq> []) (split_on CHR 0x0A txt)
         in if length rows < 2 then []
            else
              (let headers = map trim (split_on CHR '','' (hd rows));
                   jsonData = map (csvRow headers) (tl rows)
               in processImportedData dtoa jsonData)))"

definition isExcel :: "string \<Rightarrow> bool" where
  "isExcel name = (suffix ''.xlsx'' name \<or> suffix ''.xls'' name)"

text \<open>
  \<^verbatim>\<open>handleFileUpload\<close>, with the file read to its end. The file is absent or has a name and
  a content. The spreadsheet decoder of the \<^verbatim>\<open>xlsx\<close> package (\<^verbatim>\<open>read\<close>, then
  \<^verbatim>\<open>sheet_to_json\<close> on the first sheet) is the parameter \<open>xlsx\<close>: \<open>None\<close> when it throws.
\<close>

definition handleFileUpload ::
  "(real \<Rightarrow> string) \<Rightarrow> (string \<Rightarrow> row list option) \<Rightarrow> (string \<times> string) option \<Rightarrow> event list" where
  "handleFileUpload dtoa xlsx file =
     (case file of
        None \<Rightarrow> []
      | Some (name, content) \<Rightarrow>
          if isExcel name then
            (case xlsx content of
               None \<Rightarrow> [ConsoleError, Alert ExcelParseFailed]
             | Some jsonData \<Rightarrow> processImportedData dtoa jsonData)
          else handleTextLoaded dtoa content)"

section \<open>Grouping, selection and projection (DataView)\<close>

text \<open>
  \<^verbatim>\<open>x.toFixed(2)\<close> (ECMA-262, Number.prototype.toFixed): a value that is not finite renders
  as \<^verbatim>\<open>String(x)\<close>; a negative value renders as a minus sign followed by the rendering of
  its magnitude; a magnitude of \<open>10^21\<close> or more renders as \<^verbatim>\<open>String\<close> does; otherwise
  the digits are those of the integer \<open>n\<close> closest to \<open>100 * x\<close>, the larger one on a tie,
  padded with zeros to three digits at least, with a point before the last two.
\<close>

definition toFixed2 :: "(real \<Rightarrow> string) \<Rightarrow> number \<Rightarrow> string" where
  "toFixed2 dtoa v =
     (case v of
        Fin x \<Rightarrow>
          (let s = (if x < 0 then ''-'' else []);
               a = \<bar>x\<bar>
           in if 10 ^ 21 \<le> a then s @ dtoa a
              else
                (let n = nat \<lfloor>a * 100 + 1 / 2\<rfloor>;
                     m = show_nat n;
                     z = (if length m \<le> 2 then replicate (3 - length m) CHR ''0'' @ m else m)
                 in s @ take (length z - 2) z @ ''.'' @ drop (length z - 2) z))
      | NaN \<Rightarrow> numberToString dtoa v
      | PosInf \<Rightarrow> numberToString dtoa v
      | NegInf \<Rightarrow> numberToString dtoa v)"

text \<open>One term \<^verbatim>\<open>(row.F||0).toFixed(2)\<close> of the signature.\<close>

definition field2 :: "(real \<Rightarrow> string) \<Rightarrow> number \<Rightarrow> string" where
  "field2 dtoa v = toFixed2 dtoa (num_or v (Fin 0))"

definition getCompositionSignature :: "(real \<Rightarrow> string) \<Rightarrow> ChemicalData \<Rightarrow> string" where
  "getCompositionSignature dtoa r =
     field2 dtoa (SiO2 r) @ ''-'' @ field2 dtoa (Al2O3 r) @ ''-'' @ field2 dtoa (FexOy r) @ ''-'' @
     field2 dtoa (Na2O r) @ ''-'' @ field2 dtoa (K2O r) @ ''-'' @ field2 dtoa (CaO r) @ ''-'' @
     field2 dtoa (MgO r) @ ''-'' @ field2 dtoa (TiO2 r)"

text \<open>
  The \<^verbatim>\<open>groups\<close> object, as its properties in insertion order. A signature holds seven
  hyphens, so it is no array index and no name of \<^verbatim>\<open>Object.prototype\<close>: \<^verbatim>\<open>groups[sig]\<close> is
  the own property or \<^verbatim>\<open>undefined\<close>, and \<^verbatim>\<open>Object.keys\<close> lists the signatures in insertion
  order. \<open>addRow\<close> is the body of the \<^verbatim>\<open>forEach\<close> callback.
\<close>

type_synonym grouping = "(string \<times> ChemicalData list) list"

definition addRow :: "(real \<Rightarrow> string) \<Rightarrow> grouping \<Rightarrow> ChemicalData \<Rightarrow> grouping" where
  "addRow dtoa groups r =
     (let sig = getCompositionSignature dtoa r;
          groups' = (if map_of groups sig = None then groups @ [(sig, [])] else groups)
      in map (\<lambda>(k, g). if k = sig then (k, g @ [r]) else (k, g)) groups')"

definition groupedData :: "(real \<Rightarrow> string) \<Rightarrow> ChemicalData list \<Rightarrow> grouping" where
  "groupedData dtoa data = (if length data = 0 then [] else foldl (addRow dtoa) [] data)"

definition groupKeys :: "(real \<Rightarrow> string) \<Rightarrow> ChemicalData list \<Rightarrow> string list" where
  "groupKeys dtoa data = map fst (groupedData dtoa data)"


subsection \<open>Selection\<close>

text \<open>
  The two effects that write \<^verbatim>\<open>selectedGroupSignature\<close>. Each returns the argument of its
  \<^verbatim>\<open>setSelectedGroupSignature\<close> call, \<open>None\<close> when it makes none. Both read the selection
  and the keys of the render they belong to.
\<close>

definition selectionEffect :: "string list \<Rightarrow> string \<Rightarrow> string option" where
  "selectionEffect keys sel =
     (if length keys > 0 then
        (if sel = [] \<or> \<not> List.member keys sel then Some (hd keys) else None)
      else Some [])"

definition resetEffect :: "string list \<Rightarrow> string option" where
  "resetEffect keys = (if length keys > 0 then Some (hd keys) else None)"

text \<open>
  One commit of the component. React runs the effects of a commit in the order of their
  declaration, each when one of its dependencies changed, and applies the state updates
  they queue in order, so that the last call decides. \<^verbatim>\<open>groupKeys\<close> is a fresh array in
  every render: the first effect runs in every commit. The second effect depends on
  \<^verbatim>\<open>data\<close> alone: it runs when the \<^verbatim>\<open>data\<close> property is a new array (and on mount).
\<close>

definition commitEffects :: "bool \<Rightarrow> string list \<Rightarrow> string \<Rightarrow> string" where
  "commitEffects dataChanged keys sel =
     (let s1 = (case selectionEffect keys sel of Some s \<Rightarrow> s | None \<Rightarrow> sel)
      in if dataChanged then (case resetEffect keys of Some s \<Rightarrow> s | None \<Rightarrow> s1) else s1)"

subsection \<open>Projection\<close>

text \<open>
  \<^verbatim>\<open>a - b\<close>. On finite doubles the computed difference is rounded and may overflow, and
  its sign is the sign of the exact difference.
\<close>

fun num_sub :: "number \<Rightarrow> number \<Rightarrow> number" where
  "num_sub (Fin x) (Fin y) = Fin (x - y)"
| "num_sub NaN b = NaN"
| "num_sub a NaN = NaN"
| "num_sub PosInf PosInf = NaN"
| "num_sub NegInf NegInf = NaN"
| "num_sub PosInf b = PosInf"
| "num_sub NegInf b = NegInf"
| "num_sub (Fin x) PosInf = NegInf"
| "num_sub (Fin x) NegInf = PosInf"

text \<open>
  \<^verbatim>\<open>Array.prototype.sort\<close> with a comparator. \<^verbatim>\<open>SortCompare\<close> reads a NaN result as zero.
  The sort is stable; for a consistent comparator every stable sort returns the same
  array, which is the one insertion from the right builds: an element goes after the
  elements the comparator puts strictly before it, and before the rest.
\<close>

definition sortCompare :: "('a \<Rightarrow> 'a \<Rightarrow> number) \<Rightarrow> 'a \<Rightarrow> 'a \<Rightarrow> number" where
  "sortCompare cmp x y = (let v = cmp x y in if isNaN v then Fin 0 else v)"

fun insertSorted :: "('a \<Rightarrow> 'a \<Rightarrow> number) \<Rightarrow> 'a \<Rightarrow> 'a list \<Rightarrow> 'a list" where
  "insertSorted cmp x [] = [x]"
| "insertSorted cmp x (y # ys) =
     (if gt_zero (sortCompare cmp x y) then y # insertSorted cmp x ys else x # y # ys)"

definition js_sort :: "('a \<Rightarrow> 'a \<Rightarrow> number) \<Rightarrow> 'a list \<Rightarrow> 'a list" where
  "js_sort cmp xs = foldr (insertSorted cmp) xs []"

definition byTemperature :: "ChemicalData \<Rightarrow> ChemicalData \<Rightarrow> number" where
  "byTemperature a b = num_sub (temperature a) (temperature b)"

text \<open>
  The selection is a string of the component's state, so \<^verbatim>\<open>groupedData[sel]\<close> is a property
  lookup with an arbitrary name: the own property when the grouping has the key, otherwise
  the property the object inherits from \<^verbatim>\<open>Object.prototype\<close>, otherwise \<^verbatim>\<open>undefined\<close>. The
  names below are the properties of \<^verbatim>\<open>Object.prototype\<close> (ECMA-262 with its Annex B). Each
  of them is a function, or for \<^verbatim>\<open>__proto__\<close> the prototype object: a truthy value that is
  not iterable, so that the guard lets it pass and the spread \<^verbatim>\<open>[...value]\<close> raises a
  \<^verbatim>\<open>TypeError\<close>.
\<close>

definition objectPrototypeNames :: "string list" where
  "objectPrototypeNames =
     [''constructor'', ''__defineGetter__'', ''__defineSetter__'', ''hasOwnProperty'',
      ''__lookupGetter__'', ''__lookupSetter__'', ''isPrototypeOf'', ''propertyIsEnumerable'',
      ''toString'', ''valueOf'', ''__proto__'', ''toLocaleString'']"

datatype error = TypeError

definition currentData :: "grouping \<Rightarrow> string \<Rightarrow> error + ChemicalData list" where
  "currentData groups sel =
     (if sel = [] then Inr []
      else
        (case map_of groups sel of
           Some rows \<Rightarrow> Inr (js_sort byTemperature rows)
         | None \<Rightarrow>
             if List.member objectPrototypeNames sel then Inl TypeError else Inr []))"

text \<open>\<^verbatim>\<open>currentData[0]\<close>: the representative, absent when the projection is empty.\<close>

definition currentSample :: "grouping \<Rightarrow> string \<Rightarrow> error + ChemicalData option" where
  "currentSample groups sel =
     (case currentData groups sel of
        Inl e \<Rightarrow> Inl e
      | Inr [] \<Rightarrow> Inr None
      | Inr (d # ds) \<Rightarrow> Inr (Some d))"

section \<open>Notions used to state the properties\<close>

text \<open>The eight composition fields of a sample, in the order of the signature.\<close>

definition compFields :: "ChemicalData \<Rightarrow> number list" where
  "compFields r = [SiO2 r, Al2O3 r, FexOy r, Na2O r, K2O r, CaO r, MgO r, TiO2 r]"

text \<open>
  A field in the range where \<^verbatim>\<open>toFixed\<close> writes fixed notation: finite, with a magnitude
  below \<open>10^21\<close>.
\<close>

definition plain :: "number \<Rightarrow> bool" where
  "plain v = (case v of Fin x \<Rightarrow> \<bar>x\<bar> < 10 ^ 21 | NaN \<Rightarrow> False | PosInf \<Rightarrow> False | NegInf \<Rightarrow> False)"

definition nonneg :: "number \<Rightarrow> bool" where
  "nonneg v = (case v of Fin x \<Rightarrow> 0 \<le> x | NaN \<Rightarrow> False | PosInf \<Rightarrow> True | NegInf \<Rightarrow> False)"

text \<open>
  From the specification's words: a field rounded to 2 decimal digits. The rounding is to
  the nearest hundredth, a tie going away from zero.
\<close>

definition round2dp :: "number \<Rightarrow> number" where
  "round2dp v =
     (case v of
        Fin x \<Rightarrow> Fin (sgn x * real_of_int \<lfloor>\<bar>x\<bar> * 100 + 1 / 2\<rfloor> / 100)
      | NaN \<Rightarrow> NaN
      | PosInf \<Rightarrow> PosInf
      | NegInf \<Rightarrow> NegInf)"


text \<open>
  The integer whose digits \<^verbatim>\<open>toFixed(2)\<close> prints for a finite value: its magnitude in
  hundredths, rounded to the nearest integer, a tie going up.
\<close>

definition hundredths :: "real \<Rightarrow> nat" where
  "hundredths x = nat \<lfloor>\<bar>x\<bar> * 100 + 1 / 2\<rfloor>"

text \<open>
  Two finite values with one two-decimal rendering: the same sign flag and the same
  rounded hundredths.
\<close>

definition sameRendering :: "number \<Rightarrow> number \<Rightarrow> bool" where
  "sameRendering u v =
     (case (u, v) of
        (Fin x, Fin y) \<Rightarrow> (x < 0) = (y < 0) \<and> hundredths x = hundredths y
      | _ \<Rightarrow> u = v)"

text \<open>From the specification's words: the distinct elements of a list in first-seen order.\<close>

definition firstSeen :: "'a list \<Rightarrow> 'a list" where
  "firstSeen xs = foldl (\<lambda>acc x. if x \<in> set acc then acc else acc @ [x]) [] xs"

text \<open>
  A temperature the comparator of the projection orders: any number but NaN. The order is
  the one of the extended reals.
\<close>

definition num_le :: "number \<Rightarrow> number \<Rightarrow> bool" where
  "num_le u v =
     (case (u, v) of
        (NaN, _) \<Rightarrow> False
      | (_, NaN) \<Rightarrow> False
      | (NegInf, _) \<Rightarrow> True
      | (_, PosInf) \<Rightarrow> True
      | (Fin x, Fin y) \<Rightarrow> x \<le> y
      | _ \<Rightarrow> False)"

text \<open>
  Rows for examples, shaped like those of \<^verbatim>\<open>MOCK_DATA\<close>: the oxide contents of its first
  group, with the id, the \<^verbatim>\<open>SiO2\<close> content and the temperature given.
\<close>

definition mockRow :: "nat \<Rightarrow> real \<Rightarrow> real \<Rightarrow> ChemicalData" where
  "mockRow i s t =
     \<lparr> sampleID = i, SiO2 = Fin s, Al2O3 = Fin 15.33, FexOy = Fin 10.6, Na2O = Fin 2.32,
       K2O = Fin 1.87, CaO = Fin 7.58, MgO = Fin 7.48, TiO2 = Fin 0.94, source = None,
       temperature = Fin t, viscosityValue = Fin 2.25, Remark = None,
       actualMeasuredData = Some 1 \<rparr>"

section \<open>Evaluation and basic facts\<close>

text \<open>Rules that evaluate the resolvers on literal rows.\<close>

lemma lower_char_simps:
  "lower_char CHR ''A'' = CHR ''a''"
  "lower_char CHR ''B'' = CHR ''b''"
  "lower_char CHR ''C'' = CHR ''c''"
  "lower_char CHR ''D'' = CHR ''d''"
  "lower_char CHR ''E'' = CHR ''e''"
  "lower_char CHR ''F'' = CHR ''f''"
  "lower_char CHR ''G'' = CHR ''g''"
  "lower_char CHR ''H'' = CHR ''h''"
  "lower_char CHR ''I'' = CHR ''i''"
  "lower_char CHR ''J'' = CHR ''j''"
  "lower_char CHR ''K'' = CHR ''k''"
  "lower_char CHR ''L'' = CHR ''l''"
  "lower_char CHR ''M'' = CHR ''m''"
  "lower_char CHR ''N'' = CHR ''n''"
  "lower_char CHR ''O'' = CHR ''o''"
  "lower_char CHR ''P'' = CHR ''p''"
  "lower_char CHR ''Q'' = CHR ''q''"
  "lower_char CHR ''R'' = CHR ''r''"
  "lower_char CHR ''S'' = CHR ''s''"
  "lower_char CHR ''T'' = CHR ''t''"
  "lower_char CHR ''U'' = CHR ''u''"
  "lower_char CHR ''V'' = CHR ''v''"
  "lower_char CHR ''W'' = CHR ''w''"
  "lower_char CHR ''X'' = CHR ''x''"
  "lower_char CHR ''Y'' = CHR ''y''"
  "lower_char CHR ''Z'' = CHR ''z''"
  "lower_char CHR ''a'' = CHR ''a''"
  "lower_char CHR ''b'' = CHR ''b''"
  "lower_char CHR ''c'' = CHR ''c''"
  "lower_char CHR ''d'' = CHR ''d''"
  "lower_char CHR ''e'' = CHR ''e''"
  "lower_char CHR ''f'' = CHR ''f''"
  "lower_char CHR ''g'' = CHR ''g''"
  "lower_char CHR ''h'' = CHR ''h''"
  "lower_char CHR ''i'' = CHR ''i''"
  "lower_char CHR ''j'' = CHR ''j''"
  "lower_char CHR ''k'' = CHR ''k''"
  "lower_char CHR ''l'' = CHR ''l''"
  "lower_char CHR ''m'' = CHR ''m''"
  "lower_char CHR ''n'' = CHR ''n''"
  "lower_char CHR ''o'' = CHR ''o''"
  "lower_char CHR ''p'' = CHR ''p''"
  "lower_char CHR ''q'' = CHR ''q''"
  "lower_char CHR ''r'' = CHR ''r''"
  "lower_char CHR ''s'' = CHR ''s''"
  "lower_char CHR ''t'' = CHR ''t''"
  "lower_char CHR ''u'' = CHR ''u''"
  "lower_char CHR ''v'' = CHR ''v''"
  "lower_char CHR ''w'' = CHR ''w''"
  "lower_char CHR ''x'' = CHR ''x''"
  "lower_char CHR ''y'' = CHR ''y''"
  "lower_char CHR ''z'' = CHR ''z''"
  "lower_char CHR ''0'' = CHR ''0''"
  "lower_char CHR ''1'' = CHR ''1''"
  "lower_char CHR ''2'' = CHR ''2''"
  "lower_char CHR ''3'' = CHR ''3''"
  "lower_char CHR ''4'' = CHR ''4''"
  "lower_char CHR ''5'' = CHR ''5''"
  "lower_char CHR ''6'' = CHR ''6''"
  "lower_char CHR ''7'' = CHR ''7''"
  "lower_char CHR ''8'' = CHR ''8''"
  "lower_char CHR ''9'' = CHR ''9''"
  "lower_char CHR ''_'' = CHR ''_''"
  by (simp_all add: lower_char_def)

lemmas eval_defs = fuzzyGet_def fuzzyGetStr_def findKey_def key_matches_def toLowerCase_def
  lower_char_simps getProp_def parseFloat_def parseDecimal_def str_white_def is_digit_def
  dec_val_def digit_val_def exponentPart_def scale10_def isNaN_def toString_def Let_def

lemma fuzzyGet_not_NaN: "fuzzyGet r keyPart \<noteq> NaN"
  by (simp add: fuzzyGet_def isNaN_def Let_def split: option.splits)

lemma truthy_iff: "n \<noteq> NaN \<Longrightarrow> truthy n = (n \<noteq> Fin 0)"
  by (cases n) (simp_all add: truthy_def)

lemma num_or_fuzzyGet:
  "num_or (fuzzyGet r k) b = (if fuzzyGet r k \<noteq> Fin 0 then fuzzyGet r k else b)"
  by (simp add: num_or_def truthy_iff fuzzyGet_not_NaN)

lemma str_includes_iff: "str_includes s t = (\<exists>p q. s = p @ t @ q)"
proof (induction s)
  case Nil
  show ?case by auto
next
  case (Cons c s)
  show ?case
  proof
    assume "str_includes (c # s) t"
    then consider "prefix t (c # s)" | "str_includes s t" by auto
    then show "\<exists>p q. c # s = p @ t @ q"
    proof cases
      case 1
      then obtain q where "c # s = t @ q" by (auto simp: prefix_def)
      then have "c # s = [] @ t @ q" by simp
      then show ?thesis by blast
    next
      case 2
      with Cons obtain p q where "s = p @ t @ q" by auto
      then have "c # s = (c # p) @ t @ q" by simp
      then show ?thesis by blast
    qed
  next
    assume "\<exists>p q. c # s = p @ t @ q"
    then obtain p q where pq: "c # s = p @ t @ q" by auto
    show "str_includes (c # s) t"
    proof (cases p)
      case Nil
      with pq have "prefix t (c # s)" by (simp add: prefix_def)
      then show ?thesis by simp
    next
      case (Cons a p')
      with pq have "s = p' @ t @ q" by simp
      with Cons.IH have "str_includes s t" by blast
      then show ?thesis by simp
    qed
  qed
qed

lemma toLowerCase_Nil_iff: "toLowerCase s = [] \<longleftrightarrow> s = []"
  by (simp add: toLowerCase_def)

lemma key_matches_nonempty: "keyPart \<noteq> [] \<Longrightarrow> key_matches keyPart k \<Longrightarrow> k \<noteq> []"
  by (auto simp: key_matches_def toLowerCase_def)

lemma find_first:
  "\<forall>x \<in> set pre. \<not> P x \<Longrightarrow> P x \<Longrightarrow> find P (pre @ x # post) = Some x"
  by (induction pre) auto

lemma map_of_first:
  "k \<notin> fst ` set pre \<Longrightarrow> map_of (pre @ (k, v) # post) k = Some v"
  by (induction pre) auto

lemma digit_char_cases:
  "d < 10 \<Longrightarrow> d = 0 \<or> d = 1 \<or> d = 2 \<or> d = 3 \<or> d = 4 \<or> d = 5 \<or> d = 6 \<or> d = 7 \<or> d = 8 \<or> d = (9::nat)"
  by arith

lemma digit_val_nth: "k < 10 \<Longrightarrow> digit_val (''0123456789'' ! k) = k"
  using digit_char_cases [of k] by (auto simp: digit_val_def)


lemma digit_val_digit_char: "digit_val (digit_char d) = d mod 10"
  by (simp add: digit_char_def digit_val_nth)


lemma dec_val_snoc: "dec_val (ds @ [c]) = 10 * dec_val ds + digit_val c"
  by (simp add: dec_val_def)

lemma dec_val_show_nat: "dec_val (show_nat n) = n"
proof (induction n rule: show_nat.induct)
  case (1 n)
  show ?case
  proof (cases "n < 10")
    case True
    then show ?thesis
      by (subst show_nat.simps) (simp add: dec_val_def digit_val_digit_char)
  next
    case False
    with 1 have "dec_val (show_nat (n div 10)) = n div 10" by simp
    with False show ?thesis
      by (subst show_nat.simps) (simp add: dec_val_snoc digit_val_digit_char)
  qed
qed



lemma parsedData_nth:
  "parsedData dtoa rawData = map (\<lambda>i. parsedRow dtoa i (rawData ! i)) [0 ..< length rawData]"
proof -
  have "enumerate 0 rawData = map (\<lambda>i. (i, rawData ! i)) [0 ..< length rawData]"
    by (rule nth_equalityI) (simp_all add: nth_enumerate_eq)
  then show ?thesis by (simp add: parsedData_def comp_def)
qed

lemma sampleID_parsedRow: "sampleID (parsedRow dtoa i r) = Suc i"
  by (simp add: parsedRow_def)

lemma validData_nth:
  "validData dtoa rawData =
     map (\<lambda>i. parsedRow dtoa i (rawData ! i))
       (filter (\<lambda>i. accepted (parsedRow dtoa i (rawData ! i))) [0 ..< length rawData])"
  by (simp add: validData_def parsedData_nth filter_map comp_def)

lemma filter_upt_prefix:
  assumes "length (filter P [0 ..< n]) = N"
  shows "filter P [0 ..< n] = [0 ..< N] \<longleftrightarrow> (\<forall>i < N. P i)"
proof
  assume eq: "filter P [0 ..< n] = [0 ..< N]"
  show "\<forall>i < N. P i"
  proof (intro allI impI)
    fix i assume "i < N"
    then have "i \<in> set [0 ..< N]" by simp
    with eq have "i \<in> set (filter P [0 ..< n])" by simp
    then show "P i" by simp
  qed
next
  assume all: "\<forall>i < N. P i"
  have "N \<le> n" using assms length_filter_le [of P "[0 ..< n]"] by simp
  then have split: "[0 ..< n] = [0 ..< N] @ [N ..< n]"
    by (metis le0 upt_add_eq_append le_add_diff_inverse)
  have pre: "filter P [0 ..< N] = [0 ..< N]"
    using all by (simp add: filter_id_conv)
  from split have "filter P [0 ..< n] = [0 ..< N] @ filter P [N ..< n]"
    using pre by (metis filter_append)
  moreover from this assms have "filter P [N ..< n] = []" by simp
  ultimately show "filter P [0 ..< n] = [0 ..< N]" by simp
qed

text \<open>Two rows used as examples: one with recognisable columns, one without.\<close>

lemma ex_measured_fields:
  "fuzzyGet [(''SiO2'', VStr ''53.5''), (''temp'', VStr ''1488''), (''viscosity'', VStr ''2.25'')] ''SiO2'' = Fin 53.5"
  "fuzzyGet [(''SiO2'', VStr ''53.5''), (''temp'', VStr ''1488''), (''viscosity'', VStr ''2.25'')] ''Al2O3'' = Fin 0"
  "fuzzyGet [(''SiO2'', VStr ''53.5''), (''temp'', VStr ''1488''), (''viscosity'', VStr ''2.25'')] ''Fe'' = Fin 0"
  "fuzzyGet [(''SiO2'', VStr ''53.5''), (''temp'', VStr ''1488''), (''viscosity'', VStr ''2.25'')] ''FexOy'' = Fin 0"
  "fuzzyGet [(''SiO2'', VStr ''53.5''), (''temp'', VStr ''1488''), (''viscosity'', VStr ''2.25'')] ''Na2O'' = Fin 0"
  "fuzzyGet [(''SiO2'', VStr ''53.5''), (''temp'', VStr ''1488''), (''viscosity'', VStr ''2.25'')] ''K2O'' = Fin 0"
  "fuzzyGet [(''SiO2'', VStr ''53.5''), (''temp'', VStr ''1488''), (''viscosity'', VStr ''2.25'')] ''CaO'' = Fin 0"
  "fuzzyGet [(''SiO2'', VStr ''53.5''), (''temp'', VStr ''1488''), (''viscosity'', VStr ''2.25'')] ''MgO'' = Fin 0"
  "fuzzyGet [(''SiO2'', VStr ''53.5''), (''temp'', VStr ''1488''), (''viscosity'', VStr ''2.25'')] ''TiO2'' = Fin 0"
  "fuzzyGet [(''SiO2'', VStr ''53.5''), (''temp'', VStr ''1488''), (''viscosity'', VStr ''2.25'')] ''temp'' = Fin 1488"
  "fuzzyGet [(''SiO2'', VStr ''53.5''), (''temp'', VStr ''1488''), (''viscosity'', VStr ''2.25'')] ''temperature'' = Fin 0"
  "fuzzyGet [(''SiO2'', VStr ''53.5''), (''temp'', VStr ''1488''), (''viscosity'', VStr ''2.25'')] ''viscosity'' = Fin 2.25"
  "fuzzyGet [(''SiO2'', VStr ''53.5''), (''temp'', VStr ''1488''), (''viscosity'', VStr ''2.25'')] ''log10'' = Fin 0"
  "fuzzyGet [(''SiO2'', VStr ''53.5''), (''temp'', VStr ''1488''), (''viscosity'', VStr ''2.25'')] ''Value'' = Fin 0"
  "fuzzyGetStr dtoa [(''SiO2'', VStr ''53.5''), (''temp'', VStr ''1488''), (''viscosity'', VStr ''2.25'')] ''remark'' = []"
  "fuzzyGetStr dtoa [(''SiO2'', VStr ''53.5''), (''temp'', VStr ''1488''), (''viscosity'', VStr ''2.25'')] ''source'' = []"
  "fuzzyGetStr dtoa [(''SiO2'', VStr ''53.5''), (''temp'', VStr ''1488''), (''viscosity'', VStr ''2.25'')] ''name'' = []"
  by (simp_all add: eval_defs)

lemma ex_unrecognised_fields:
  "fuzzyGet [(''foo'', VStr ''bar'')] ''SiO2'' = Fin 0"
  "fuzzyGet [(''foo'', VStr ''bar'')] ''Al2O3'' = Fin 0"
  "fuzzyGet [(''foo'', VStr ''bar'')] ''Fe'' = Fin 0"
  "fuzzyGet [(''foo'', VStr ''bar'')] ''FexOy'' = Fin 0"
  "fuzzyGet [(''foo'', VStr ''bar'')] ''Na2O'' = Fin 0"
  "fuzzyGet [(''foo'', VStr ''bar'')] ''K2O'' = Fin 0"
  "fuzzyGet [(''foo'', VStr ''bar'')] ''CaO'' = Fin 0"
  "fuzzyGet [(''foo'', VStr ''bar'')] ''MgO'' = Fin 0"
  "fuzzyGet [(''foo'', VStr ''bar'')] ''TiO2'' = Fin 0"
  "fuzzyGet [(''foo'', VStr ''bar'')] ''temp'' = Fin 0"
  "fuzzyGet [(''foo'', VStr ''bar'')] ''temperature'' = Fin 0"
  "fuzzyGet [(''foo'', VStr ''bar'')] ''viscosity'' = Fin 0"
  "fuzzyGet [(''foo'', VStr ''bar'')] ''log10'' = Fin 0"
  "fuzzyGet [(''foo'', VStr ''bar'')] ''Value'' = Fin 0"
  "fuzzyGetStr dtoa [(''foo'', VStr ''bar'')] ''remark'' = []"
  "fuzzyGetStr dtoa [(''foo'', VStr ''bar'')] ''source'' = []"
  "fuzzyGetStr dtoa [(''foo'', VStr ''bar'')] ''name'' = []"
  by (simp_all add: eval_defs)

lemma ex_unrecognised:
  "parsedRow dtoa i [(''foo'', VStr ''bar'')] =
     \<lparr> sampleID = Suc i, SiO2 = Fin 0, Al2O3 = Fin 0, FexOy = Fin 0, Na2O = Fin 0, K2O = Fin 0,
       CaO = Fin 0, MgO = Fin 0, TiO2 = Fin 0, source = None, temperature = Fin 0,
       viscosityValue = Fin 0, Remark = Some [], actualMeasuredData = Some 1 \<rparr>"
  by (simp add: parsedRow_def ex_unrecognised_fields num_or_def truthy_def str_or_def)

lemma ex_measured:
  "parsedRow dtoa i [(''SiO2'', VStr ''53.5''), (''temp'', VStr ''1488''), (''viscosity'', VStr ''2.25'')] =
     \<lparr> sampleID = Suc i, SiO2 = Fin 53.5, Al2O3 = Fin 0, FexOy = Fin 0, Na2O = Fin 0, K2O = Fin 0,
       CaO = Fin 0, MgO = Fin 0, TiO2 = Fin 0, source = None, temperature = Fin 1488,
       viscosityValue = Fin 2.25, Remark = Some [], actualMeasuredData = Some 1 \<rparr>"
  by (simp add: parsedRow_def ex_measured_fields num_or_def truthy_def str_or_def)

lemma ex_valid:
  "validData dtoa
     [[(''foo'', VStr ''bar'')],
      [(''SiO2'', VStr ''53.5''), (''temp'', VStr ''1488''), (''viscosity'', VStr ''2.25'')]] =
     [\<lparr> sampleID = 2, SiO2 = Fin 53.5, Al2O3 = Fin 0, FexOy = Fin 0, Na2O = Fin 0, K2O = Fin 0,
       CaO = Fin 0, MgO = Fin 0, TiO2 = Fin 0, source = None, temperature = Fin 1488,
       viscosityValue = Fin 2.25, Remark = Some [], actualMeasuredData = Some 1 \<rparr>]"
  by (simp add: validData_def parsedData_def ex_unrecognised ex_measured accepted_def
      gt_zero_def neq_zero_def)

lemma ex_none_valid: "validData dtoa [[(''foo'', VStr ''bar'')]] = []"
  by (simp add: validData_def parsedData_def ex_unrecognised accepted_def gt_zero_def neq_zero_def)

lemma ex_fallback:
  "fuzzyGet [(''Fe2O3'', VStr ''0''), (''FexOy'', VStr ''10.5''), (''temperature'', VStr ''1470''),
             (''log10'', VStr ''2.5'')] ''Fe'' = Fin 0"
  "fuzzyGet [(''Fe2O3'', VStr ''0''), (''FexOy'', VStr ''10.5''), (''temperature'', VStr ''1470''),
             (''log10'', VStr ''2.5'')] ''FexOy'' = Fin 10.5"
  "fuzzyGet [(''Fe2O3'', VStr ''0''), (''FexOy'', VStr ''10.5''), (''temperature'', VStr ''1470''),
             (''log10'', VStr ''2.5'')] ''temp'' = Fin 1470"
  "fuzzyGet [(''Fe2O3'', VStr ''0''), (''FexOy'', VStr ''10.5''), (''temperature'', VStr ''1470''),
             (''log10'', VStr ''2.5'')] ''viscosity'' = Fin 0"
  "fuzzyGet [(''Fe2O3'', VStr ''0''), (''FexOy'', VStr ''10.5''), (''temperature'', VStr ''1470''),
             (''log10'', VStr ''2.5'')] ''log10'' = Fin 2.5"
  by (simp_all add: eval_defs)

text \<open>Grouping: the fold that builds the groups, in closed form.\<close>

lemma firstSeen_snoc:
  "firstSeen (xs @ [x]) = (if x \<in> set (firstSeen xs) then firstSeen xs else firstSeen xs @ [x])"
  by (simp add: firstSeen_def)

lemma set_firstSeen: "set (firstSeen xs) = set xs"
  by (induction xs rule: rev_induct) (auto simp: firstSeen_snoc, simp add: firstSeen_def)

lemma distinct_firstSeen: "distinct (firstSeen xs)"
  by (induction xs rule: rev_induct) (simp add: firstSeen_def, simp add: firstSeen_snoc)

lemma foldl_addRow:
  "foldl (addRow dtoa) [] data =
     map (\<lambda>k. (k, filter (\<lambda>r. getCompositionSignature dtoa r = k) data))
       (firstSeen (map (getCompositionSignature dtoa) data))"
proof (induction data rule: rev_induct)
  case Nil
  show ?case by (simp add: firstSeen_def)
next
  case (snoc x data)
  let ?sig = "getCompositionSignature dtoa"
  let ?ks = "firstSeen (map ?sig data)"
  let ?G = "map (\<lambda>k. (k, filter (\<lambda>r. ?sig r = k) data)) ?ks"
  have step: "foldl (addRow dtoa) [] (data @ [x]) = addRow dtoa ?G x"
    using snoc by simp
  have none: "map_of ?G (?sig x) = None \<longleftrightarrow> ?sig x \<notin> set ?ks"
    by (simp add: map_of_eq_None_iff image_image)
  show ?case
  proof (cases "?sig x \<in> set ?ks")
    case True
    then have "addRow dtoa ?G x =
        map (\<lambda>k. (k, filter (\<lambda>r. ?sig r = k) (data @ [x]))) ?ks"
      using none by (auto simp: addRow_def Let_def)
    with True step show ?thesis by (simp add: firstSeen_snoc)
  next
    case False
    then have "?sig x \<notin> ?sig ` set data"
      by (simp add: set_firstSeen)
    then have "\<forall>r \<in> set data. ?sig r \<noteq> ?sig x"
      by (metis imageI)
    then have nomatch: "filter (\<lambda>r. ?sig r = ?sig x) data = []"
      by (simp add: filter_empty_conv)
    from False have "addRow dtoa ?G x =
        map (\<lambda>k. (k, filter (\<lambda>r. ?sig r = k) (data @ [x]))) (?ks @ [?sig x])"
      using none nomatch by (auto simp: addRow_def Let_def)
    with False step show ?thesis by (simp add: firstSeen_snoc)
  qed
qed

lemma mset_concat_groups:
  "distinct ks \<Longrightarrow>
   mset (concat (map (\<lambda>k. filter (\<lambda>r. f r = k) xs) ks)) = mset (filter (\<lambda>r. f r \<in> set ks) xs)"
  by (induction ks) (auto simp: multiset_eq_iff)

lemma groupedData_eq:
  "groupedData dtoa data =
     map (\<lambda>k. (k, filter (\<lambda>r. getCompositionSignature dtoa r = k) data))
       (firstSeen (map (getCompositionSignature dtoa) data))"
proof (cases "data = []")
  case True
  then show ?thesis by (simp add: groupedData_def firstSeen_def)
next
  case False
  then show ?thesis by (simp add: groupedData_def foldl_addRow)
qed


lemma map_of_groupedData:
  "map_of (groupedData dtoa data) k =
     (if k \<in> getCompositionSignature dtoa ` set data
      then Some (filter (\<lambda>r. getCompositionSignature dtoa r = k) data) else None)"
  by (simp add: groupedData_eq map_of_map_restrict set_firstSeen restrict_map_def)

















text \<open>Rounded values and renderings.\<close>

lemma hundredths_floor: "int (hundredths x) = \<lfloor>\<bar>x\<bar> * 100 + 1 / 2\<rfloor>"
proof -
  have "0 \<le> \<bar>x\<bar> * 100 + 1 / 2" by simp
  then have "0 \<le> \<lfloor>\<bar>x\<bar> * 100 + 1 / 2\<rfloor>" by (simp only: zero_le_floor)
  then show ?thesis by (simp add: hundredths_def)
qed

lemma hundredths_zero: "hundredths 0 = 0"
  by (simp add: hundredths_def)

lemma round2dp_Fin: "round2dp (Fin x) = Fin (sgn x * real (hundredths x) / 100)"
proof -
  have "real_of_int \<lfloor>\<bar>x\<bar> * 100 + 1 / 2\<rfloor> = real (hundredths x)"
    using hundredths_floor [of x] by (metis of_int_of_nat_eq)
  then show ?thesis by (simp add: round2dp_def)
qed

lemma sameRendering_round2dp:
  assumes "plain u" "plain v" "sameRendering u v"
  shows "round2dp u = round2dp v"
proof -
  from assms(1) obtain x where u: "u = Fin x" by (cases u) (auto simp: plain_def)
  from assms(2) obtain y where v: "v = Fin y" by (cases v) (auto simp: plain_def)
  from assms(3) u v have s: "(x < 0) = (y < 0)" and h: "hundredths x = hundredths y"
    by (simp_all add: sameRendering_def)
  show ?thesis
  proof (cases "hundredths x = 0")
    case True
    with h show ?thesis by (simp add: u v round2dp_Fin)
  next
    case False
    with h have "x \<noteq> 0" "y \<noteq> 0" using hundredths_zero by auto
    with s have "sgn x = sgn y" by (auto simp: sgn_if)
    with h show ?thesis by (simp add: u v round2dp_Fin)
  qed
qed

lemma round2dp_sameRendering:
  assumes "plain u" "plain v" "nonneg u" "nonneg v" "round2dp u = round2dp v"
  shows "sameRendering u v"
proof -
  from assms(1) obtain x where u: "u = Fin x" by (cases u) (auto simp: plain_def)
  from assms(2) obtain y where v: "v = Fin y" by (cases v) (auto simp: plain_def)
  from assms(3,4) u v have nn: "0 \<le> x" "0 \<le> y" by (simp_all add: nonneg_def)
  from assms(5) u v have e: "sgn x * real (hundredths x) = sgn y * real (hundredths y)"
    by (simp add: round2dp_Fin)
  have "hundredths x = hundredths y"
  proof (cases "x = 0")
    case True
    with e have "sgn y * real (hundredths y) = 0" by simp
    then have "y = 0 \<or> hundredths y = 0" by (auto simp: sgn_if split: if_splits)
    with True show ?thesis using hundredths_zero by auto
  next
    case False
    with nn have x: "0 < x" by simp
    show ?thesis
    proof (cases "y = 0")
      case True
      with e x have "hundredths x = 0" by (simp add: hundredths_zero)
      with True show ?thesis by (simp add: hundredths_zero)
    next
      case False
      with nn have "0 < y" by simp
      with x e show ?thesis by simp
    qed
  qed
  with nn show ?thesis by (simp add: u v sameRendering_def)
qed


lemma fields_round_if:
  assumes "list_all plain (compFields a)" "list_all plain (compFields b)"
    and "list_all2 sameRendering (compFields a) (compFields b)"
  shows "map round2dp (compFields a) = map round2dp (compFields b)"
  using assms by (simp add: compFields_def sameRendering_round2dp)

lemma fields_round_only_if:
  assumes "list_all plain (compFields a)" "list_all plain (compFields b)"
    and "list_all nonneg (compFields a)" "list_all nonneg (compFields b)"
    and "map round2dp (compFields a) = map round2dp (compFields b)"
  shows "list_all2 sameRendering (compFields a) (compFields b)"
  using assms by (simp add: compFields_def round2dp_sameRendering)







text \<open>Evaluating the rendering on the example rows.\<close>

lemma toFixed2_digits:
  assumes "\<bar>x\<bar> < 10 ^ 21" "hundredths x = n" "show_nat n = m"
    and "z = (if length m \<le> 2 then replicate (3 - length m) CHR ''0'' @ m else m)"
  shows "toFixed2 dtoa (Fin x) =
     (if x < 0 then ''-'' else []) @ take (length z - 2) z @ ''.'' @ drop (length z - 2) z"
  using assms by (simp add: toFixed2_def Let_def hundredths_def)

lemma field2_digits:
  assumes "\<bar>x\<bar> < 10 ^ 21" "hundredths x = n" "show_nat n = m"
    and "z = (if length m \<le> 2 then replicate (3 - length m) CHR ''0'' @ m else m)"
  shows "field2 dtoa (Fin x) =
     (if x < 0 then ''-'' else []) @ take (length z - 2) z @ ''.'' @ drop (length z - 2) z"
  using toFixed2_digits [OF assms, of dtoa]
  by (cases "x = 0") (simp_all add: field2_def num_or_def truthy_def)

lemma ex_show_nat:
  "show_nat 1533 = ''1533''" "show_nat 1060 = ''1060''" "show_nat 232 = ''232''"
  "show_nat 187 = ''187''" "show_nat 758 = ''758''" "show_nat 748 = ''748''"
  "show_nat 94 = ''94''" "show_nat 5350 = ''5350''"
  "show_nat 4825 = ''4825''" "show_nat 0 = ''0''"
  by (simp_all add: show_nat.simps digit_char_def)

lemma ex_hundredths:
  "hundredths 15.33 = 1533" "hundredths 10.6 = 1060" "hundredths 2.32 = 232"
  "hundredths 1.87 = 187" "hundredths 7.58 = 758" "hundredths 7.48 = 748"
  "hundredths 0.94 = 94" "hundredths 53.5 = 5350" "hundredths 48.25 = 4825"
  "hundredths 53.500001 = 5350" "hundredths 53.4999994 = 5350"
  "hundredths (- 0.001) = 0" "hundredths 0.001 = 0"
  by (simp_all add: hundredths_def)

lemma ex_field2:
  "field2 dtoa (Fin 15.33) = ''15.33''"
  "field2 dtoa (Fin 10.6) = ''10.60''"
  "field2 dtoa (Fin 2.32) = ''2.32''"
  "field2 dtoa (Fin 1.87) = ''1.87''"
  "field2 dtoa (Fin 7.58) = ''7.58''"
  "field2 dtoa (Fin 7.48) = ''7.48''"
  "field2 dtoa (Fin 0.94) = ''0.94''"
  "field2 dtoa (Fin 53.5) = ''53.50''"
  "field2 dtoa (Fin 48.25) = ''48.25''"
  "field2 dtoa (Fin 53.500001) = ''53.50''"
  "field2 dtoa (Fin 53.4999994) = ''53.50''"
  "field2 dtoa (Fin (- 0.001)) = ''-0.00''"
  "field2 dtoa (Fin 0.001) = ''0.00''"
  by (subst field2_digits, simp, rule ex_hundredths, rule ex_show_nat, rule refl, simp)+

lemma ex_signature:
  "getCompositionSignature dtoa (mockRow i s t) =
     field2 dtoa (Fin s) @ ''-15.33-10.60-2.32-1.87-7.58-7.48-0.94''"
  by (simp only: getCompositionSignature_def mockRow_def ChemicalData.select_convs ex_field2)
    simp



lemma ex_sig:
  "getCompositionSignature dtoa (mockRow i 53.5 t) = ''53.50-15.33-10.60-2.32-1.87-7.58-7.48-0.94''"
  "getCompositionSignature dtoa (mockRow i 48.25 t) = ''48.25-15.33-10.60-2.32-1.87-7.58-7.48-0.94''"
  "getCompositionSignature dtoa (mockRow i 53.500001 t) = ''53.50-15.33-10.60-2.32-1.87-7.58-7.48-0.94''"
  "getCompositionSignature dtoa (mockRow i 53.4999994 t) = ''53.50-15.33-10.60-2.32-1.87-7.58-7.48-0.94''"
  "getCompositionSignature dtoa (mockRow i (- 0.001) t) = ''-0.00-15.33-10.60-2.32-1.87-7.58-7.48-0.94''"
  "getCompositionSignature dtoa (mockRow i 0.001 t) = ''0.00-15.33-10.60-2.32-1.87-7.58-7.48-0.94''"
  by (simp_all only: ex_signature ex_field2) simp_all

text \<open>The projection: the insertion sort is a permutation, sorts, and is stable.\<close>

lemma mset_insertSorted: "mset (insertSorted cmp x ys) = add_mset x (mset ys)"
  by (induction ys) simp_all

lemma mset_js_sort: "mset (js_sort cmp xs) = mset xs"
  by (induction xs) (simp_all add: js_sort_def mset_insertSorted)

lemma set_insertSorted: "set (insertSorted cmp x ys) = insert x (set ys)"
  by (induction ys) auto

lemma set_js_sort: "set (js_sort cmp xs) = set xs"
  by (induction xs) (simp_all add: js_sort_def set_insertSorted)

lemma gt_sub_iff:
  "u \<noteq> NaN \<Longrightarrow> v \<noteq> NaN \<Longrightarrow>
   gt_zero (if isNaN (num_sub u v) then Fin 0 else num_sub u v) \<longleftrightarrow> \<not> num_le u v"
  by (cases u; cases v) (auto simp: gt_zero_def isNaN_def num_le_def)

lemma byTemperature_gt:
  "temperature a \<noteq> NaN \<Longrightarrow> temperature b \<noteq> NaN \<Longrightarrow>
   gt_zero (sortCompare byTemperature a b) \<longleftrightarrow> \<not> num_le (temperature a) (temperature b)"
  by (simp add: sortCompare_def byTemperature_def Let_def gt_sub_iff)

lemma num_le_total: "u \<noteq> NaN \<Longrightarrow> v \<noteq> NaN \<Longrightarrow> num_le u v \<or> num_le v u"
  by (cases u; cases v) (auto simp: num_le_def)

lemma num_le_trans: "num_le u v \<Longrightarrow> num_le v w \<Longrightarrow> num_le u w"
  by (cases u; cases v; cases w) (auto simp: num_le_def)

lemma num_le_refl: "u \<noteq> NaN \<Longrightarrow> num_le u u"
  by (cases u) (auto simp: num_le_def)

lemma sorted_insertSorted:
  assumes "temperature x \<noteq> NaN" "\<forall>s \<in> set ys. temperature s \<noteq> NaN"
    and "sorted_wrt (\<lambda>a b. num_le (temperature a) (temperature b)) ys"
  shows "sorted_wrt (\<lambda>a b. num_le (temperature a) (temperature b)) (insertSorted byTemperature x ys)"
  using assms
proof (induction ys)
  case Nil
  show ?case by simp
next
  case (Cons y ys)
  show ?case
  proof (cases "gt_zero (sortCompare byTemperature x y)")
    case True
    with Cons.prems have "\<not> num_le (temperature x) (temperature y)"
      by (simp add: byTemperature_gt)
    with Cons.prems have yx: "num_le (temperature y) (temperature x)"
      using num_le_total [of "temperature x" "temperature y"] by auto
    from Cons have "sorted_wrt (\<lambda>a b. num_le (temperature a) (temperature b))
        (insertSorted byTemperature x ys)" by simp
    with True yx Cons.prems show ?thesis
      by (auto simp: set_insertSorted)
  next
    case False
    with Cons.prems have xy: "num_le (temperature x) (temperature y)"
      by (simp add: byTemperature_gt)
    with Cons.prems have "\<forall>s \<in> set ys. num_le (temperature x) (temperature s)"
      by (auto intro: num_le_trans)
    with False xy Cons.prems show ?thesis by simp
  qed
qed

lemma sorted_js_sort:
  assumes "\<forall>s \<in> set xs. temperature s \<noteq> NaN"
  shows "sorted_wrt (\<lambda>a b. num_le (temperature a) (temperature b)) (js_sort byTemperature xs)"
  using assms
proof (induction xs)
  case Nil
  show ?case by (simp add: js_sort_def)
next
  case (Cons x xs)
  then have "sorted_wrt (\<lambda>a b. num_le (temperature a) (temperature b)) (js_sort byTemperature xs)"
    by simp
  with Cons.prems have "sorted_wrt (\<lambda>a b. num_le (temperature a) (temperature b))
      (insertSorted byTemperature x (js_sort byTemperature xs))"
    by (intro sorted_insertSorted) (simp_all add: set_js_sort)
  then show ?case by (simp add: js_sort_def)
qed

lemma byTemperature_equal:
  "temperature a = temperature b \<Longrightarrow> \<not> gt_zero (sortCompare byTemperature a b)"
  by (cases "temperature b") (simp_all add: sortCompare_def byTemperature_def Let_def gt_zero_def isNaN_def)

lemma filter_insertSorted:
  "filter (\<lambda>s. temperature s = k) (insertSorted byTemperature x ys) =
     filter (\<lambda>s. temperature s = k) (x # ys)"
proof (induction ys)
  case Nil
  show ?case by simp
next
  case (Cons y ys)
  show ?case
  proof (cases "gt_zero (sortCompare byTemperature x y)")
    case True
    then have "temperature x \<noteq> temperature y"
      using byTemperature_equal by blast
    with True Cons show ?thesis by auto
  next
    case False
    then show ?thesis by simp
  qed
qed

lemma stable_js_sort:
  "filter (\<lambda>s. temperature s = k) (js_sort byTemperature xs) = filter (\<lambda>s. temperature s = k) xs"
proof (induction xs)
  case Nil
  show ?case by (simp add: js_sort_def)
next
  case (Cons x xs)
  have "filter (\<lambda>s. temperature s = k) (js_sort byTemperature (x # xs)) =
      filter (\<lambda>s. temperature s = k) (x # js_sort byTemperature xs)"
    by (simp add: js_sort_def filter_insertSorted del: filter.simps)
  with Cons show ?case by simp
qed

lemma signature_nonempty: "getCompositionSignature dtoa r \<noteq> []"
  by (simp add: getCompositionSignature_def)

lemma signature_not_inherited:
  "getCompositionSignature dtoa r \<notin> set objectPrototypeNames"
proof -
  have "CHR ''-'' \<in> set (getCompositionSignature dtoa r)"
    by (simp add: getCompositionSignature_def)
  moreover have "\<forall>n \<in> set objectPrototypeNames. CHR ''-'' \<notin> set n"
    by (simp add: objectPrototypeNames_def)
  ultimately show ?thesis by blast
qed

text \<open>A selection that names a property of the prototype and is no key raises.\<close>

lemma currentData_inherited:
  "map_of g sel = None \<Longrightarrow> sel \<in> set objectPrototypeNames \<Longrightarrow> currentData g sel = Inl TypeError"
  by (auto simp: currentData_def objectPrototypeNames_def)

lemma groupedData_keys_nonempty: "[] \<notin> fst ` set (groupedData dtoa data)"
  using signature_nonempty [of dtoa]
  by (auto simp: groupedData_eq set_firstSeen image_image) metis

lemma groupedData_temps:
  assumes "\<forall>s \<in> set data. temperature s \<noteq> NaN"
  shows "\<forall>(k, rows) \<in> set (groupedData dtoa data). \<forall>s \<in> set rows. temperature s \<noteq> NaN"
  using assms by (auto simp: groupedData_eq)

lemma hd_firstSeen: "xs \<noteq> [] \<Longrightarrow> firstSeen xs \<noteq> [] \<and> hd (firstSeen xs) = hd xs"
proof (induction xs rule: rev_induct)
  case Nil
  then show ?case by simp
next
  case (snoc x xs)
  show ?case
  proof (cases "xs = []")
    case True
    then show ?thesis by (simp add: firstSeen_def)
  next
    case False
    with snoc.IH have "firstSeen xs \<noteq> []" "hd (firstSeen xs) = hd xs" by simp_all
    with False show ?thesis by (simp add: firstSeen_snoc)
  qed
qed

lemma groupKeys_eq: "groupKeys dtoa data = firstSeen (map (getCompositionSignature dtoa) data)"
  by (simp add: groupKeys_def groupedData_eq comp_def)

lemma groupKeys_nonempty: "[] \<notin> set (groupKeys dtoa data)"
  using signature_nonempty [of dtoa]
  by (auto simp: groupKeys_eq set_firstSeen) metis

lemma processImportedData_nonempty: "processImportedData dtoa rawData \<noteq> []"
  by (simp add: processImportedData_def Let_def)

lemma ex_grouped:
  "groupedData dtoa
     [mockRow 1 53.5 1450, mockRow 2 48.25 1480, mockRow 3 53.5 1420, mockRow 4 53.5 1450] =
   [(''53.50-15.33-10.60-2.32-1.87-7.58-7.48-0.94'',
       [mockRow 1 53.5 1450, mockRow 3 53.5 1420, mockRow 4 53.5 1450]),
    (''48.25-15.33-10.60-2.32-1.87-7.58-7.48-0.94'', [mockRow 2 48.25 1480])]"
proof -
  define r1 where "r1 = mockRow 1 53.5 1450"
  define r2 where "r2 = mockRow 2 48.25 1480"
  define r3 where "r3 = mockRow 3 53.5 1420"
  define r4 where "r4 = mockRow 4 53.5 1450"
  have s: "getCompositionSignature dtoa r1 = ''53.50-15.33-10.60-2.32-1.87-7.58-7.48-0.94''"
    "getCompositionSignature dtoa r2 = ''48.25-15.33-10.60-2.32-1.87-7.58-7.48-0.94''"
    "getCompositionSignature dtoa r3 = ''53.50-15.33-10.60-2.32-1.87-7.58-7.48-0.94''"
    "getCompositionSignature dtoa r4 = ''53.50-15.33-10.60-2.32-1.87-7.58-7.48-0.94''"
    unfolding r1_def r2_def r3_def r4_def by (rule ex_sig)+
  have "groupedData dtoa [r1, r2, r3, r4] =
   [(''53.50-15.33-10.60-2.32-1.87-7.58-7.48-0.94'', [r1, r3, r4]),
    (''48.25-15.33-10.60-2.32-1.87-7.58-7.48-0.94'', [r2])]"
    by (simp add: groupedData_eq s firstSeen_def)
  then show ?thesis unfolding r1_def r2_def r3_def r4_def .
qed

lemma ex_temperature: "temperature (mockRow i s t) = Fin t"
  by (simp add: mockRow_def)

lemma ex_sorted:
  "js_sort byTemperature [mockRow 1 53.5 1450, mockRow 3 53.5 1420, mockRow 4 53.5 1450] =
     [mockRow 3 53.5 1420, mockRow 1 53.5 1450, mockRow 4 53.5 1450]"
proof -
  define r1 where "r1 = mockRow 1 53.5 1450"
  define r3 where "r3 = mockRow 3 53.5 1420"
  define r4 where "r4 = mockRow 4 53.5 1450"
  have t: "temperature r1 = Fin 1450" "temperature r3 = Fin 1420" "temperature r4 = Fin 1450"
    unfolding r1_def r3_def r4_def by (rule ex_temperature)+
  have "js_sort byTemperature [r1, r3, r4] = [r3, r1, r4]"
    by (simp add: js_sort_def sortCompare_def byTemperature_def t gt_zero_def isNaN_def)
  then show ?thesis unfolding r1_def r3_def r4_def .
qed

lemma ex_keys:
  "groupKeys dtoa
     [mockRow 1 53.5 1450, mockRow 2 48.25 1480, mockRow 3 53.5 1420, mockRow 4 53.5 1450] =
   [''53.50-15.33-10.60-2.32-1.87-7.58-7.48-0.94'', ''48.25-15.33-10.60-2.32-1.87-7.58-7.48-0.94'']"
  by (simp only: groupKeys_def ex_grouped) simp

lemma ex_not_excel: "\<not> isExcel ''data.csv''"
  by (simp add: isExcel_def suffix_to_prefix)

lemma ex_headers_only:
  "filter (\<lambda>r. trim r \<noteq> []) (split_on CHR 0x0A (''SiO2,temp,viscosity'' @ [CHR 0x0A] @ ''  ''))
     = [''SiO2,temp,viscosity'']"
  by (simp add: trim_def str_white_def)

text \<open>A two-line text file is decoded to one row and imported.\<close>

lemma ex_two_lines:
  "filter (\<lambda>r. trim r \<noteq> [])
     (split_on CHR 0x0A (''SiO2,temp,viscosity'' @ [CHR 0x0A] @ ''53.5,1488,2.25''))
     = [''SiO2,temp,viscosity'', ''53.5,1488,2.25'']"
  by (simp add: trim_def str_white_def)

lemma ex_values: "split_on CHR '','' ''53.5,1488,2.25'' = [''53.5'', ''1488'', ''2.25'']"
  by simp

lemma ex_no_index:
  "\<not> is_array_index ''SiO2''" "\<not> is_array_index ''temp''" "\<not> is_array_index ''viscosity''"
  by (simp_all add: is_array_index_def is_digit_def)

lemma ex_csvRow:
  "csvRow [''SiO2'', ''temp'', ''viscosity''] ''53.5,1488,2.25'' =
     [(''SiO2'', VStr ''53.5''), (''temp'', VStr ''1488''), (''viscosity'', VStr ''2.25'')]"
  by (simp add: csvRow_def ex_values assign_def ownKeysOrder_def ex_no_index)

lemma ex_single_valid:
  "validData dtoa
     [[(''SiO2'', VStr ''53.5''), (''temp'', VStr ''1488''), (''viscosity'', VStr ''2.25'')]] =
     [\<lparr> sampleID = 1, SiO2 = Fin 53.5, Al2O3 = Fin 0, FexOy = Fin 0, Na2O = Fin 0, K2O = Fin 0,
       CaO = Fin 0, MgO = Fin 0, TiO2 = Fin 0, source = None, temperature = Fin 1488,
       viscosityValue = Fin 2.25, Remark = Some [], actualMeasuredData = Some 1 \<rparr>]"
  by (simp add: validData_def parsedData_def ex_measured accepted_def gt_zero_def neq_zero_def)

lemma ex_text_import:
  "handleTextLoaded dtoa (''SiO2,temp,viscosity'' @ [CHR 0x0A] @ ''53.5,1488,2.25'') =
     [DataLoaded
        [\<lparr> sampleID = 1, SiO2 = Fin 53.5, Al2O3 = Fin 0, FexOy = Fin 0, Na2O = Fin 0,
           K2O = Fin 0, CaO = Fin 0, MgO = Fin 0, TiO2 = Fin 0, source = None,
           temperature = Fin 1488, viscosityValue = Fin 2.25, Remark = Some [],
           actualMeasuredData = Some 1 \<rparr>],
      Connect ''Imported File'' ''Found 1 rows'']"
proof -
  have "handleTextLoaded dtoa (''SiO2,temp,viscosity'' @ [CHR 0x0A] @ ''53.5,1488,2.25'') =
      processImportedData dtoa
        [[(''SiO2'', VStr ''53.5''), (''temp'', VStr ''1488''), (''viscosity'', VStr ''2.25'')]]"
    by (simp only: handleTextLoaded_def Let_def ex_two_lines) (simp add: trim_def str_white_def ex_csvRow)
  also have "\<dots> = [DataLoaded
        [\<lparr> sampleID = 1, SiO2 = Fin 53.5, Al2O3 = Fin 0, FexOy = Fin 0, Na2O = Fin 0,
           K2O = Fin 0, CaO = Fin 0, MgO = Fin 0, TiO2 = Fin 0, source = None,
           temperature = Fin 1488, viscosityValue = Fin 2.25, Remark = Some [],
           actualMeasuredData = Some 1 \<rparr>],
      Connect ''Imported File'' ''Found 1 rows'']"
    by (simp add: processImportedData_def ex_single_valid show_nat.simps digit_char_def)
  finally show ?thesis .
qed

section \<open>The field resolver\<close>

text \<open>
  Claim C6. For a non-empty \<open>keyPart\<close> (every call of the resolver passes a non-empty
  literal), \<open>fuzzyGet\<close> returns 0 when no key of the row matches; when \<open>k\<close> is the first
  key, in the row's enumeration order, whose lower-cased form contains the lower-cased
  \<open>keyPart\<close>, it returns the value of \<open>k\<close> read by \<open>parseFloat\<close>, and 0 when that is NaN.
  The result is a number in every case, never NaN and never an error. A key matches when
  its lower-cased form holds the lower-cased \<open>keyPart\<close> as a contiguous substring.
\<close>

theorem fuzzyGet_first_match:
  assumes "keyPart \<noteq> []"
  shows "((\<forall>k \<in> set (map fst r). \<not> key_matches keyPart k) \<longrightarrow> fuzzyGet r keyPart = Fin 0)
       \<and> (r = pre @ (k, v) # post \<and> (\<forall>k' \<in> set (map fst pre). \<not> key_matches keyPart k')
            \<and> key_matches keyPart k \<longrightarrow>
          fuzzyGet r keyPart = (if parseFloat v = NaN then Fin 0 else parseFloat v))
       \<and> fuzzyGet r keyPart \<noteq> NaN
       \<and> key_matches keyPart k = (\<exists>p q. toLowerCase k = p @ toLowerCase keyPart @ q)"
proof (intro conjI impI)
  assume "\<forall>k \<in> set (map fst r). \<not> key_matches keyPart k"
  then have "findKey r keyPart = None"
    by (simp add: findKey_def find_None_iff)
  then show "fuzzyGet r keyPart = Fin 0"
    by (simp add: fuzzyGet_def)
next
  assume h: "r = pre @ (k, v) # post \<and> (\<forall>k' \<in> set (map fst pre). \<not> key_matches keyPart k')
            \<and> key_matches keyPart k"
  then have "find (key_matches keyPart) (map fst pre @ k # map fst post) = Some k"
    by (intro find_first) auto
  with h have fk: "findKey r keyPart = Some k"
    by (simp add: findKey_def)
  from h have "k \<notin> fst ` set pre" by auto
  then have "map_of (pre @ (k, v) # post) k = Some v" by (rule map_of_first)
  with h have "map_of r k = Some v" by blast
  then have gp: "getProp r k = v"
    by (simp add: getProp_def)
  from h assms have "k \<noteq> []" by (auto dest: key_matches_nonempty)
  with fk gp show "fuzzyGet r keyPart = (if parseFloat v = NaN then Fin 0 else parseFloat v)"
    by (simp add: fuzzyGet_def isNaN_def Let_def)
next
  show "fuzzyGet r keyPart \<noteq> NaN" by (rule fuzzyGet_not_NaN)
next
  show "key_matches keyPart k = (\<exists>p q. toLowerCase k = p @ toLowerCase keyPart @ q)"
    by (simp add: key_matches_def str_includes_iff)
qed

theorem fuzzyGet_first_match_witness:
  "''SiO2'' \<noteq> [] \<and> key_matches ''SiO2'' ''SIO2_WT'' \<and> \<not> key_matches ''SiO2'' ''Al2O3''
   \<and> fuzzyGet [(''Al2O3'', VStr ''15.33''), (''SIO2_WT'', VStr ''53.5''), (''sio2'', VStr ''1'')] ''SiO2''
       = Fin 53.5
   \<and> fuzzyGet [(''Al2O3'', VStr ''15.33'')] ''SiO2'' = Fin 0
   \<and> fuzzyGet [(''SiO2'', VStr ''n/a'')] ''SiO2'' = Fin 0"
proof -
  have ne: "''SiO2'' \<noteq> []" by simp
  have m1: "key_matches ''SiO2'' ''SIO2_WT''"
    by (simp add: key_matches_def toLowerCase_def lower_char_simps)
  have m2: "\<not> key_matches ''SiO2'' ''Al2O3''"
    by (simp add: key_matches_def toLowerCase_def lower_char_simps)
  have m3: "key_matches ''SiO2'' ''SiO2''"
    by (simp add: key_matches_def toLowerCase_def lower_char_simps)
  have p1: "parseFloat (VStr ''53.5'') = Fin 53.5" by (simp add: eval_defs)
  have p2: "parseFloat (VStr ''n/a'') = NaN" by (simp add: eval_defs)
  note T = fuzzyGet_first_match [OF ne]
  note miss = T [THEN conjunct1]
  note hit = T [THEN conjunct2, THEN conjunct1]
  have a: "fuzzyGet [(''Al2O3'', VStr ''15.33''), (''SIO2_WT'', VStr ''53.5''), (''sio2'', VStr ''1'')] ''SiO2''
       = Fin 53.5"
    using hit [of "[(''Al2O3'', VStr ''15.33''), (''SIO2_WT'', VStr ''53.5''), (''sio2'', VStr ''1'')]"
        "[(''Al2O3'', VStr ''15.33'')]" "''SIO2_WT''" "VStr ''53.5''" "[(''sio2'', VStr ''1'')]"] m1 m2 p1
    by simp
  have b: "fuzzyGet [(''Al2O3'', VStr ''15.33'')] ''SiO2'' = Fin 0"
    using miss [of "[(''Al2O3'', VStr ''15.33'')]"] m2 by simp
  have c: "fuzzyGet [(''SiO2'', VStr ''n/a'')] ''SiO2'' = Fin 0"
    using hit [of "[(''SiO2'', VStr ''n/a'')]" "[]" "''SiO2''" "VStr ''n/a''" "[]"] m3 p2 by simp
  from ne m1 m2 a b c show ?thesis by blast
qed

section \<open>The normalizer\<close>

text \<open>
  Claim C1. Every sample of the normalized output satisfies \<^verbatim>\<open>temperature > 0\<close> and
  (\<^verbatim>\<open>viscosityValue !== 0\<close> or \<^verbatim>\<open>SiO2 !== 0\<close>), and the sample built for an input row that
  fails this predicate is not in the output.
\<close>

theorem processImportedData_accepted:
  "(\<forall>d \<in> set (validData dtoa rawData).
      gt_zero (temperature d) \<and> (viscosityValue d \<noteq> Fin 0 \<or> SiO2 d \<noteq> Fin 0))
   \<and> (\<forall>i < length rawData.
        \<not> (gt_zero (temperature (parsedRow dtoa i (rawData ! i)))
            \<and> (viscosityValue (parsedRow dtoa i (rawData ! i)) \<noteq> Fin 0
                 \<or> SiO2 (parsedRow dtoa i (rawData ! i)) \<noteq> Fin 0)) \<longrightarrow>
        parsedRow dtoa i (rawData ! i) \<notin> set (validData dtoa rawData))"
  by (simp add: validData_def accepted_def neq_zero_def)

theorem processImportedData_accepted_witness:
  "validData (\<lambda>x. [])
     [[(''foo'', VStr ''bar'')],
      [(''SiO2'', VStr ''53.5''), (''temp'', VStr ''1488''), (''viscosity'', VStr ''2.25'')]] =
     [parsedRow (\<lambda>x. []) 1
        [(''SiO2'', VStr ''53.5''), (''temp'', VStr ''1488''), (''viscosity'', VStr ''2.25'')]]
   \<and> gt_zero (temperature (parsedRow (\<lambda>x. []) 1
        [(''SiO2'', VStr ''53.5''), (''temp'', VStr ''1488''), (''viscosity'', VStr ''2.25'')]))
   \<and> viscosityValue (parsedRow (\<lambda>x. []) 1
        [(''SiO2'', VStr ''53.5''), (''temp'', VStr ''1488''), (''viscosity'', VStr ''2.25'')])
       \<noteq> Fin 0
   \<and> \<not> gt_zero (temperature (parsedRow (\<lambda>x. []) 0 [(''foo'', VStr ''bar'')]))
   \<and> parsedRow (\<lambda>x. []) 0 [(''foo'', VStr ''bar'')] \<notin>
       set (validData (\<lambda>x. [])
         [[(''foo'', VStr ''bar'')],
          [(''SiO2'', VStr ''53.5''), (''temp'', VStr ''1488''), (''viscosity'', VStr ''2.25'')]])"
proof -
  let ?rows = "[[(''foo'', VStr ''bar'')],
          [(''SiO2'', VStr ''53.5''), (''temp'', VStr ''1488''), (''viscosity'', VStr ''2.25'')]]"
  let ?kept = "parsedRow (\<lambda>x. []) 1
        [(''SiO2'', VStr ''53.5''), (''temp'', VStr ''1488''), (''viscosity'', VStr ''2.25'')]"
  let ?dropped = "parsedRow (\<lambda>x. []) 0 [(''foo'', VStr ''bar'')]"
  note T = processImportedData_accepted [of "\<lambda>x. []" ?rows]
  have v: "validData (\<lambda>x. []) ?rows = [?kept]"
    by (simp add: ex_valid ex_measured)
  from T have "\<forall>d \<in> set (validData (\<lambda>x. []) ?rows).
      gt_zero (temperature d) \<and> (viscosityValue d \<noteq> Fin 0 \<or> SiO2 d \<noteq> Fin 0)" by blast
  with v have a: "gt_zero (temperature ?kept)" by simp
  have b: "viscosityValue ?kept \<noteq> Fin 0" by (simp add: ex_measured)
  have c: "\<not> gt_zero (temperature ?dropped)"
    by (simp add: ex_unrecognised gt_zero_def)
  from T have "\<not> (gt_zero (temperature (parsedRow (\<lambda>x. []) 0 (?rows ! 0)))
            \<and> (viscosityValue (parsedRow (\<lambda>x. []) 0 (?rows ! 0)) \<noteq> Fin 0
                 \<or> SiO2 (parsedRow (\<lambda>x. []) 0 (?rows ! 0)) \<noteq> Fin 0)) \<longrightarrow>
        parsedRow (\<lambda>x. []) 0 (?rows ! 0) \<notin> set (validData (\<lambda>x. []) ?rows)"
    by (elim conjE allE [of _ 0]) simp
  with c have d: "?dropped \<notin> set (validData (\<lambda>x. []) ?rows)"
    by simp
  from v a b c d show ?thesis by blast
qed

text \<open>
  Claim C2, as stated, fails: the ids are given before the filter runs. With an
  unrecognisable first row and an accepted second row the output holds one sample, whose
  id is 2, while the dense sequence for one sample is 1.
\<close>

theorem validData_ids_counterexample:
  "map sampleID (validData (\<lambda>x. [])
     [[(''foo'', VStr ''bar'')],
      [(''SiO2'', VStr ''53.5''), (''temp'', VStr ''1488''), (''viscosity'', VStr ''2.25'')]]) = [2]
   \<and> map sampleID (validData (\<lambda>x. [])
     [[(''foo'', VStr ''bar'')],
      [(''SiO2'', VStr ''53.5''), (''temp'', VStr ''1488''), (''viscosity'', VStr ''2.25'')]])
     \<noteq> [1 ..< Suc (length (validData (\<lambda>x. [])
     [[(''foo'', VStr ''bar'')],
      [(''SiO2'', VStr ''53.5''), (''temp'', VStr ''1488''), (''viscosity'', VStr ''2.25'')]]))]"
  by (simp add: ex_valid)

text \<open>
  Claim C2, amended. The sample at input position \<open>i\<close> (0-based) is built with id
  \<open>i + 1\<close> and keeps it: the ids of the normalized output are the 1-based input positions
  of the accepted rows, in strictly increasing order. They are the dense sequence 1..N
  (N the number of accepted samples) exactly when the first N input rows are the accepted
  ones.
\<close>

theorem validData_ids:
  "map sampleID (parsedData dtoa rawData) = [1 ..< Suc (length rawData)]
   \<and> map sampleID (validData dtoa rawData) =
       map Suc (filter (\<lambda>i. accepted (parsedRow dtoa i (rawData ! i))) [0 ..< length rawData])
   \<and> sorted_wrt (<) (map sampleID (validData dtoa rawData))
   \<and> (map sampleID (validData dtoa rawData) = [1 ..< Suc (length (validData dtoa rawData))]
        \<longleftrightarrow> (\<forall>i < length (validData dtoa rawData). accepted (parsedRow dtoa i (rawData ! i))))"
proof (intro conjI)
  let ?P = "\<lambda>i. accepted (parsedRow dtoa i (rawData ! i))"
  let ?n = "length rawData"
  show "map sampleID (parsedData dtoa rawData) = [1 ..< Suc ?n]"
    by (simp add: parsedData_nth comp_def sampleID_parsedRow map_Suc_upt)
  show ids: "map sampleID (validData dtoa rawData) = map Suc (filter ?P [0 ..< ?n])"
    by (simp add: validData_nth comp_def sampleID_parsedRow)
  have "sorted_wrt (<) (filter ?P [0 ..< ?n])"
    by (rule sorted_wrt_filter) simp
  then show "sorted_wrt (<) (map sampleID (validData dtoa rawData))"
    by (simp add: ids sorted_wrt_map)
  have len: "length (filter ?P [0 ..< ?n]) = length (validData dtoa rawData)"
    by (simp add: validData_nth)
  have "map Suc (filter ?P [0 ..< ?n]) = map Suc [0 ..< length (validData dtoa rawData)]
      \<longleftrightarrow> filter ?P [0 ..< ?n] = [0 ..< length (validData dtoa rawData)]"
    by (simp add: inj_map_eq_map)
  then show "map sampleID (validData dtoa rawData) = [1 ..< Suc (length (validData dtoa rawData))]
        \<longleftrightarrow> (\<forall>i < length (validData dtoa rawData). ?P i)"
    using filter_upt_prefix [OF len] by (simp add: ids map_Suc_upt)
qed

theorem validData_ids_witness:
  "map sampleID (validData (\<lambda>x. [])
     [[(''foo'', VStr ''bar'')],
      [(''SiO2'', VStr ''53.5''), (''temp'', VStr ''1488''), (''viscosity'', VStr ''2.25'')]]) = map Suc [1]
   \<and> \<not> accepted (parsedRow (\<lambda>x. []) 0 [(''foo'', VStr ''bar'')])"
proof -
  let ?rows = "[[(''foo'', VStr ''bar'')],
          [(''SiO2'', VStr ''53.5''), (''temp'', VStr ''1488''), (''viscosity'', VStr ''2.25'')]]"
  have upt: "[0 ..< length ?rows] = [0, 1]" by (simp add: upt_rec)
  have r: "\<not> accepted (parsedRow (\<lambda>x. []) 0 [(''foo'', VStr ''bar'')])"
    by (simp add: ex_unrecognised accepted_def gt_zero_def)
  have k: "accepted (parsedRow (\<lambda>x. []) 1
      [(''SiO2'', VStr ''53.5''), (''temp'', VStr ''1488''), (''viscosity'', VStr ''2.25'')])"
    by (simp add: ex_measured accepted_def gt_zero_def neq_zero_def)
  from validData_ids [of "\<lambda>x. []" ?rows]
  have "map sampleID (validData (\<lambda>x. []) ?rows) =
       map Suc (filter (\<lambda>i. accepted (parsedRow (\<lambda>x. []) i (?rows ! i))) [0 ..< length ?rows])"
    by blast
  with r k have "map sampleID (validData (\<lambda>x. []) ?rows) = map Suc [1]"
    unfolding upt by simp
  with r show ?thesis by blast
qed

text \<open>
  Claim C7. The composite lookups of the normalizer try their candidates in a fixed
  order: iron content \<^verbatim>\<open>Fe\<close> then \<^verbatim>\<open>FexOy\<close>, temperature \<^verbatim>\<open>temp\<close> then \<^verbatim>\<open>temperature\<close>,
  viscosity \<^verbatim>\<open>viscosity\<close>, then \<^verbatim>\<open>log10\<close>, then \<^verbatim>\<open>Value\<close>. A later candidate's value is
  used exactly when every earlier candidate resolves to 0.
\<close>

theorem composite_lookups:
  "FexOy (parsedRow dtoa idx r) =
     (if fuzzyGet r ''Fe'' \<noteq> Fin 0 then fuzzyGet r ''Fe'' else fuzzyGet r ''FexOy'')
   \<and> temperature (parsedRow dtoa idx r) =
     (if fuzzyGet r ''temp'' \<noteq> Fin 0 then fuzzyGet r ''temp'' else fuzzyGet r ''temperature'')
   \<and> viscosityValue (parsedRow dtoa idx r) =
     (if fuzzyGet r ''viscosity'' \<noteq> Fin 0 then fuzzyGet r ''viscosity''
      else if fuzzyGet r ''log10'' \<noteq> Fin 0 then fuzzyGet r ''log10''
      else fuzzyGet r ''Value'')"
  by (simp add: parsedRow_def num_or_fuzzyGet)

theorem composite_lookups_witness:
  "FexOy (parsedRow (\<lambda>x. []) 0
      [(''Fe2O3'', VStr ''0''), (''FexOy'', VStr ''10.5''), (''temperature'', VStr ''1470''),
       (''log10'', VStr ''2.5'')]) = Fin 10.5
   \<and> temperature (parsedRow (\<lambda>x. []) 0
      [(''Fe2O3'', VStr ''0''), (''FexOy'', VStr ''10.5''), (''temperature'', VStr ''1470''),
       (''log10'', VStr ''2.5'')]) = Fin 1470
   \<and> viscosityValue (parsedRow (\<lambda>x. []) 0
      [(''Fe2O3'', VStr ''0''), (''FexOy'', VStr ''10.5''), (''temperature'', VStr ''1470''),
       (''log10'', VStr ''2.5'')]) = Fin 2.5"
  using composite_lookups [of "\<lambda>x. []" 0
      "[(''Fe2O3'', VStr ''0''), (''FexOy'', VStr ''10.5''), (''temperature'', VStr ''1470''),
       (''log10'', VStr ''2.5'')]"]
  by (simp only: ex_fallback) simp

text \<open>
  Claim C8. With no accepted sample the only observable action is the alert that no valid
  data was found: no callback is called and the displayed data stay as they were. With
  accepted samples the data-loaded callback receives exactly the accepted samples and the
  connect callback receives the label \<^verbatim>\<open>Imported File\<close> with the text \<^verbatim>\<open>Found N rows\<close>, N the
  decimal numeral of the number of accepted samples. Nothing is reported for a single
  rejected row.
\<close>

theorem processImportedData_outcome:
  "(validData dtoa rawData = [] \<longrightarrow>
      processImportedData dtoa rawData = [Alert NoValidData]
      \<and> viscosityData (foldl dispatch st (processImportedData dtoa rawData)) = viscosityData st)
   \<and> (validData dtoa rawData \<noteq> [] \<longrightarrow>
      processImportedData dtoa rawData =
        [DataLoaded (validData dtoa rawData),
         Connect ''Imported File''
           (''Found '' @ show_nat (length (validData dtoa rawData)) @ '' rows'')]
      \<and> viscosityData (foldl dispatch st (processImportedData dtoa rawData)) = validData dtoa rawData
      \<and> connectedDbInfo (foldl dispatch st (processImportedData dtoa rawData)) =
          Some (''Imported File'',
            ''Found '' @ show_nat (length (validData dtoa rawData)) @ '' rows'')
      \<and> dec_val (show_nat (length (validData dtoa rawData))) = length (validData dtoa rawData))"
  by (simp add: processImportedData_def Let_def handleDataLoaded_def handleDbConnect_def
      dec_val_show_nat)

theorem processImportedData_outcome_witness:
  "processImportedData (\<lambda>x. []) [[(''foo'', VStr ''bar'')]] = [Alert NoValidData]
   \<and> viscosityData (foldl dispatch
        \<lparr> viscosityData = [], isConnected = False, connectedDbInfo = None \<rparr>
        (processImportedData (\<lambda>x. []) [[(''foo'', VStr ''bar'')]])) = []
   \<and> connectedDbInfo (foldl dispatch
        \<lparr> viscosityData = [], isConnected = False, connectedDbInfo = None \<rparr>
        (processImportedData (\<lambda>x. [])
          [[(''foo'', VStr ''bar'')],
           [(''SiO2'', VStr ''53.5''), (''temp'', VStr ''1488''), (''viscosity'', VStr ''2.25'')]]))
      = Some (''Imported File'', ''Found 1 rows'')"
proof -
  let ?st = "\<lparr> viscosityData = [], isConnected = False, connectedDbInfo = None \<rparr>"
  let ?rows = "[[(''foo'', VStr ''bar'')],
           [(''SiO2'', VStr ''53.5''), (''temp'', VStr ''1488''), (''viscosity'', VStr ''2.25'')]]"
  have s1: "show_nat (Suc 0) = ''1''" by (simp add: show_nat.simps digit_char_def)
  from processImportedData_outcome [of "\<lambda>x. []" "[[(''foo'', VStr ''bar'')]]" ?st]
  have a: "processImportedData (\<lambda>x. []) [[(''foo'', VStr ''bar'')]] = [Alert NoValidData]
      \<and> viscosityData (foldl dispatch ?st
          (processImportedData (\<lambda>x. []) [[(''foo'', VStr ''bar'')]])) = []"
    by (simp add: ex_none_valid)
  have nv: "validData (\<lambda>x. []) ?rows \<noteq> []" by (simp add: ex_valid)
  from processImportedData_outcome [of "\<lambda>x. []" ?rows ?st] nv
  have "connectedDbInfo (foldl dispatch ?st (processImportedData (\<lambda>x. []) ?rows))
      = Some (''Imported File'', ''Found '' @ show_nat (length (validData (\<lambda>x. []) ?rows)) @ '' rows'')"
    by blast
  also have "\<dots> = Some (''Imported File'', ''Found 1 rows'')"
    by (simp add: ex_valid s1)
  finally have b: "connectedDbInfo (foldl dispatch ?st (processImportedData (\<lambda>x. []) ?rows))
      = Some (''Imported File'', ''Found 1 rows'')" .
  from a b show ?thesis by blast
qed

section \<open>Grouping\<close>

text \<open>
  Claim C9. Grouping appends each sample to the group under its composition signature.
  In closed form: the keys are the signatures of the data in first-seen order, without
  repetition, and the group of a key holds the samples with that signature in input
  order; every sample is in exactly one group. The grouping is a function of the sample
  sequence alone, so grouping the same sequence twice gives the same keys, in the same
  order, with the same contents.
\<close>

theorem groupedData_characterisation:
  "groupedData dtoa data =
     map (\<lambda>k. (k, filter (\<lambda>r. getCompositionSignature dtoa r = k) data))
       (firstSeen (map (getCompositionSignature dtoa) data))
   \<and> groupKeys dtoa data = firstSeen (map (getCompositionSignature dtoa) data)
   \<and> distinct (groupKeys dtoa data)
   \<and> mset (concat (map snd (groupedData dtoa data))) = mset data"
proof -
  let ?sig = "getCompositionSignature dtoa"
  let ?ks = "firstSeen (map ?sig data)"
  have g: "groupedData dtoa data = map (\<lambda>k. (k, filter (\<lambda>r. ?sig r = k) data)) ?ks"
  proof (cases "data = []")
    case True
    then show ?thesis by (simp add: groupedData_def firstSeen_def)
  next
    case False
    then show ?thesis by (simp add: groupedData_def foldl_addRow)
  qed
  have k: "groupKeys dtoa data = ?ks"
    by (simp add: groupKeys_def g comp_def)
  have "mset (concat (map snd (groupedData dtoa data))) =
      mset (filter (\<lambda>r. ?sig r \<in> set ?ks) data)"
    by (simp add: g comp_def mset_concat_groups distinct_firstSeen)
  also have "\<dots> = mset data"
    by (simp add: set_firstSeen)
  finally show ?thesis
    using g k by (simp add: distinct_firstSeen)
qed

theorem groupedData_characterisation_witness:
  "groupedData (\<lambda>x. [])
     [mockRow 1 53.5 1450, mockRow 2 48.25 1480, mockRow 3 53.5 1420, mockRow 4 53.5 1450] =
   [(''53.50-15.33-10.60-2.32-1.87-7.58-7.48-0.94'',
       [mockRow 1 53.5 1450, mockRow 3 53.5 1420, mockRow 4 53.5 1450]),
    (''48.25-15.33-10.60-2.32-1.87-7.58-7.48-0.94'', [mockRow 2 48.25 1480])]"
proof -
  define r1 where "r1 = mockRow 1 53.5 1450"
  define r2 where "r2 = mockRow 2 48.25 1480"
  define r3 where "r3 = mockRow 3 53.5 1420"
  define r4 where "r4 = mockRow 4 53.5 1450"
  let ?sig = "getCompositionSignature (\<lambda>x. [])"
  have s: "?sig r1 = ''53.50-15.33-10.60-2.32-1.87-7.58-7.48-0.94''"
    "?sig r2 = ''48.25-15.33-10.60-2.32-1.87-7.58-7.48-0.94''"
    "?sig r3 = ''53.50-15.33-10.60-2.32-1.87-7.58-7.48-0.94''"
    "?sig r4 = ''53.50-15.33-10.60-2.32-1.87-7.58-7.48-0.94''"
    unfolding r1_def r2_def r3_def r4_def by (rule ex_sig)+
  from groupedData_characterisation [of "\<lambda>x. []" "[r1, r2, r3, r4]"]
  have "groupedData (\<lambda>x. []) [r1, r2, r3, r4] =
     map (\<lambda>k. (k, filter (\<lambda>r. ?sig r = k) [r1, r2, r3, r4]))
       (firstSeen (map ?sig [r1, r2, r3, r4]))"
    by blast
  then have "groupedData (\<lambda>x. []) [r1, r2, r3, r4] =
   [(''53.50-15.33-10.60-2.32-1.87-7.58-7.48-0.94'', [r1, r3, r4]),
    (''48.25-15.33-10.60-2.32-1.87-7.58-7.48-0.94'', [r2])]"
    by (simp add: s firstSeen_def)
  then show ?thesis unfolding r1_def r2_def r3_def r4_def .
qed




section \<open>Projection and selection\<close>

text \<open>
  Claim C4. For a grouping whose keys are non-empty (as every signature is) and whose
  temperatures are numbers other than NaN, and for a selection that is no property name of
  \<^verbatim>\<open>Object.prototype\<close> (no composition signature is one, nor is the empty selection), the
  projection of a signature that is absent is empty, and the projection of a signature that
  is present is the group sorted by temperature: a permutation of the group, ascending in
  temperature, in which the samples of equal temperature keep their original relative
  order.
\<close>

theorem currentData_projection:
  assumes "[] \<notin> fst ` set g"
    and "\<forall>(k, rows) \<in> set g. \<forall>s \<in> set rows. temperature s \<noteq> NaN"
    and "sel \<notin> set objectPrototypeNames"
  shows "(map_of g sel = None \<longrightarrow> currentData g sel = Inr [])
       \<and> (\<forall>rows. map_of g sel = Some rows \<longrightarrow>
            (\<exists>out. currentData g sel = Inr out
               \<and> mset out = mset rows
               \<and> sorted_wrt (\<lambda>a b. num_le (temperature a) (temperature b)) out
               \<and> (\<forall>k. filter (\<lambda>s. temperature s = k) out =
                       filter (\<lambda>s. temperature s = k) rows)))
       \<and> getCompositionSignature dtoa r \<notin> set objectPrototypeNames
       \<and> [] \<notin> set objectPrototypeNames"
proof (intro conjI allI impI)
  assume "map_of g sel = None"
  with assms(3) show "currentData g sel = Inr []" by (simp add: currentData_def)
next
  fix rows assume r: "map_of g sel = Some rows"
  then have mem: "(sel, rows) \<in> set g" by (rule map_of_SomeD)
  with assms(1) have ne: "sel \<noteq> []" by force
  with r have c: "currentData g sel = Inr (js_sort byTemperature rows)"
    by (simp add: currentData_def)
  from mem assms(2) have nn: "\<forall>s \<in> set rows. temperature s \<noteq> NaN" by blast
  have "mset (js_sort byTemperature rows) = mset rows" by (simp add: mset_js_sort)
  moreover have "sorted_wrt (\<lambda>a b. num_le (temperature a) (temperature b))
      (js_sort byTemperature rows)"
    using nn by (simp add: sorted_js_sort)
  moreover have "\<forall>k. filter (\<lambda>s. temperature s = k) (js_sort byTemperature rows) =
      filter (\<lambda>s. temperature s = k) rows"
    by (simp add: stable_js_sort)
  ultimately show "\<exists>out. currentData g sel = Inr out
               \<and> mset out = mset rows
               \<and> sorted_wrt (\<lambda>a b. num_le (temperature a) (temperature b)) out
               \<and> (\<forall>k. filter (\<lambda>s. temperature s = k) out =
                       filter (\<lambda>s. temperature s = k) rows)"
    using c by blast
next
  show "getCompositionSignature dtoa r \<notin> set objectPrototypeNames"
    by (rule signature_not_inherited)
next
  show "[] \<notin> set objectPrototypeNames" by (simp add: objectPrototypeNames_def)
qed

theorem currentData_projection_witness:
  "currentData
     (groupedData (\<lambda>x. [])
       [mockRow 1 53.5 1450, mockRow 2 48.25 1480, mockRow 3 53.5 1420, mockRow 4 53.5 1450])
     ''53.50-15.33-10.60-2.32-1.87-7.58-7.48-0.94''
     = Inr [mockRow 3 53.5 1420, mockRow 1 53.5 1450, mockRow 4 53.5 1450]
   \<and> filter (\<lambda>s. temperature s = Fin 1450)
        [mockRow 3 53.5 1420, mockRow 1 53.5 1450, mockRow 4 53.5 1450]
     = [mockRow 1 53.5 1450, mockRow 4 53.5 1450]
   \<and> currentData
       (groupedData (\<lambda>x. [])
         [mockRow 1 53.5 1450, mockRow 2 48.25 1480, mockRow 3 53.5 1420, mockRow 4 53.5 1450])
       ''53.51-15.33-10.60-2.32-1.87-7.58-7.48-0.94'' = Inr []"
proof -
  define r1 where "r1 = mockRow 1 53.5 1450"
  define r2 where "r2 = mockRow 2 48.25 1480"
  define r3 where "r3 = mockRow 3 53.5 1420"
  define r4 where "r4 = mockRow 4 53.5 1450"
  define g where "g = groupedData (\<lambda>x. []) [r1, r2, r3, r4]"
  have g: "g = [(''53.50-15.33-10.60-2.32-1.87-7.58-7.48-0.94'', [r1, r3, r4]),
    (''48.25-15.33-10.60-2.32-1.87-7.58-7.48-0.94'', [r2])]"
    unfolding g_def r1_def r2_def r3_def r4_def by (rule ex_grouped)
  have t: "temperature r1 = Fin 1450" "temperature r2 = Fin 1480" "temperature r3 = Fin 1420"
    "temperature r4 = Fin 1450"
    unfolding r1_def r2_def r3_def r4_def by (rule ex_temperature)+
  have h1: "[] \<notin> fst ` set g" by (simp add: g)
  have h2: "\<forall>(k, rows) \<in> set g. \<forall>s \<in> set rows. temperature s \<noteq> NaN"
    by (simp add: g t)
  have h3: "''53.50-15.33-10.60-2.32-1.87-7.58-7.48-0.94'' \<notin> set objectPrototypeNames"
    by (simp add: objectPrototypeNames_def)
  have h4: "''53.51-15.33-10.60-2.32-1.87-7.58-7.48-0.94'' \<notin> set objectPrototypeNames"
    by (simp add: objectPrototypeNames_def)
  have m: "map_of g ''53.50-15.33-10.60-2.32-1.87-7.58-7.48-0.94'' = Some [r1, r3, r4]"
    by (simp add: g)
  have n: "map_of g ''53.51-15.33-10.60-2.32-1.87-7.58-7.48-0.94'' = None"
    by (simp add: g)
  have a: "currentData g ''53.50-15.33-10.60-2.32-1.87-7.58-7.48-0.94'' = Inr [r3, r1, r4]"
    using ex_sorted by (simp add: currentData_def m r1_def r3_def r4_def)
  from currentData_projection [OF h1 h2 h3] m obtain out where
    o: "currentData g ''53.50-15.33-10.60-2.32-1.87-7.58-7.48-0.94'' = Inr out"
    and st: "\<forall>k. filter (\<lambda>s. temperature s = k) out = filter (\<lambda>s. temperature s = k) [r1, r3, r4]"
    by blast
  from o a have "out = [r3, r1, r4]" by simp
  with st have "filter (\<lambda>s. temperature s = Fin 1450) [r3, r1, r4] =
      filter (\<lambda>s. temperature s = Fin 1450) [r1, r3, r4]"
    by blast
  also have "\<dots> = [r1, r4]" by (simp add: t)
  finally have b: "filter (\<lambda>s. temperature s = Fin 1450) [r3, r1, r4] = [r1, r4]" .
  from currentData_projection [OF h1 h2 h4] n
  have c: "currentData g ''53.51-15.33-10.60-2.32-1.87-7.58-7.48-0.94'' = Inr []"
    by blast
  from a b c show ?thesis unfolding g_def r1_def r2_def r3_def r4_def by blast
qed

text \<open>
  Claim C5. In a commit where the data were replaced by a non-empty collection the active
  signature becomes the first key of the new grouping, which is the signature of the first
  sample, whatever it was before, also when it still is a key. In a commit where the data
  are the same, an active signature that is a key stays, and one that is not a key is
  replaced by the first key. The state reached is stable: the commit that follows the
  update changes nothing.
\<close>

theorem selection_policy:
  "(data \<noteq> [] \<longrightarrow>
      commitEffects True (groupKeys dtoa data) sel = hd (groupKeys dtoa data)
      \<and> hd (groupKeys dtoa data) = getCompositionSignature dtoa (hd data))
   \<and> (sel \<in> set (groupKeys dtoa data) \<longrightarrow> commitEffects False (groupKeys dtoa data) sel = sel)
   \<and> (data \<noteq> [] \<and> sel \<notin> set (groupKeys dtoa data) \<longrightarrow>
        commitEffects False (groupKeys dtoa data) sel = hd (groupKeys dtoa data))
   \<and> commitEffects False (groupKeys dtoa data) (commitEffects changed (groupKeys dtoa data) sel)
       = commitEffects changed (groupKeys dtoa data) sel"
proof (intro conjI impI)
  let ?keys = "groupKeys dtoa data"
  note ne = groupKeys_nonempty [of dtoa data]
  {
    assume d: "data \<noteq> []"
    then have k: "?keys \<noteq> []" and h: "hd ?keys = getCompositionSignature dtoa (hd data)"
      using hd_firstSeen [of "map (getCompositionSignature dtoa) data"]
      by (simp_all add: groupKeys_eq hd_map)
    from k show "commitEffects True ?keys sel = hd ?keys"
      by (simp add: commitEffects_def resetEffect_def Let_def)
    from h show "hd ?keys = getCompositionSignature dtoa (hd data)" .
  }
  {
    assume s: "sel \<in> set ?keys"
    with ne have "sel \<noteq> []" by auto
    with s show "commitEffects False ?keys sel = sel"
      by (auto simp: commitEffects_def selectionEffect_def Let_def)
  }
  {
    assume a: "data \<noteq> [] \<and> sel \<notin> set ?keys"
    then have k: "?keys \<noteq> []"
      using hd_firstSeen [of "map (getCompositionSignature dtoa) data"]
      by (simp add: groupKeys_eq)
    with a show "commitEffects False ?keys sel = hd ?keys"
      by (auto simp: commitEffects_def selectionEffect_def Let_def)
  }
  show "commitEffects False ?keys (commitEffects changed ?keys sel) = commitEffects changed ?keys sel"
  proof (cases "?keys = []")
    case True
    then show ?thesis
      by (simp add: commitEffects_def selectionEffect_def resetEffect_def Let_def)
  next
    case False
    then have "hd ?keys \<in> set ?keys" by simp
    with ne have "hd ?keys \<noteq> []" by auto
    with False show ?thesis
      by (auto simp: commitEffects_def selectionEffect_def resetEffect_def Let_def)
  qed
qed

theorem selection_policy_witness:
  "commitEffects True
     (groupKeys (\<lambda>x. [])
       [mockRow 1 53.5 1450, mockRow 2 48.25 1480, mockRow 3 53.5 1420, mockRow 4 53.5 1450])
     ''48.25-15.33-10.60-2.32-1.87-7.58-7.48-0.94''
     = ''53.50-15.33-10.60-2.32-1.87-7.58-7.48-0.94''
   \<and> commitEffects False
     (groupKeys (\<lambda>x. [])
       [mockRow 1 53.5 1450, mockRow 2 48.25 1480, mockRow 3 53.5 1420, mockRow 4 53.5 1450])
     ''48.25-15.33-10.60-2.32-1.87-7.58-7.48-0.94''
     = ''48.25-15.33-10.60-2.32-1.87-7.58-7.48-0.94''
   \<and> commitEffects False
     (groupKeys (\<lambda>x. [])
       [mockRow 1 53.5 1450, mockRow 2 48.25 1480, mockRow 3 53.5 1420, mockRow 4 53.5 1450])
     ''53.51-15.33-10.60-2.32-1.87-7.58-7.48-0.94''
     = ''53.50-15.33-10.60-2.32-1.87-7.58-7.48-0.94''"
proof -
  define data where
    "data = [mockRow 1 53.5 1450, mockRow 2 48.25 1480, mockRow 3 53.5 1420, mockRow 4 53.5 1450]"
  define keys where "keys = groupKeys (\<lambda>x. []) data"
  have k: "keys = [''53.50-15.33-10.60-2.32-1.87-7.58-7.48-0.94'',
      ''48.25-15.33-10.60-2.32-1.87-7.58-7.48-0.94'']"
    unfolding keys_def data_def by (rule ex_keys)
  have d: "data \<noteq> []" by (simp add: data_def)
  note T = selection_policy [of data "\<lambda>x. []", folded keys_def]
  from T [of "''48.25-15.33-10.60-2.32-1.87-7.58-7.48-0.94''"] d
  have "commitEffects True keys ''48.25-15.33-10.60-2.32-1.87-7.58-7.48-0.94'' = hd keys"
    by blast
  then have a: "commitEffects True keys ''48.25-15.33-10.60-2.32-1.87-7.58-7.48-0.94''
      = ''53.50-15.33-10.60-2.32-1.87-7.58-7.48-0.94''"
    by (simp add: k)
  have "''48.25-15.33-10.60-2.32-1.87-7.58-7.48-0.94'' \<in> set keys" by (simp add: k)
  with T [of "''48.25-15.33-10.60-2.32-1.87-7.58-7.48-0.94''"]
  have b: "commitEffects False keys ''48.25-15.33-10.60-2.32-1.87-7.58-7.48-0.94''
      = ''48.25-15.33-10.60-2.32-1.87-7.58-7.48-0.94''"
    by blast
  have "''53.51-15.33-10.60-2.32-1.87-7.58-7.48-0.94'' \<notin> set keys" by (simp add: k)
  with T [of "''53.51-15.33-10.60-2.32-1.87-7.58-7.48-0.94''"] d
  have "commitEffects False keys ''53.51-15.33-10.60-2.32-1.87-7.58-7.48-0.94'' = hd keys"
    by blast
  then have c: "commitEffects False keys ''53.51-15.33-10.60-2.32-1.87-7.58-7.48-0.94''
      = ''53.50-15.33-10.60-2.32-1.87-7.58-7.48-0.94''"
    by (simp add: k)
  from a b c show ?thesis unfolding keys_def data_def by blast
qed

section \<open>Upload of a short text file\<close>

text \<open>
  Claim C10. For a file whose name does not end in \<^verbatim>\<open>.xlsx\<close> or \<^verbatim>\<open>.xls\<close> and whose content
  has fewer than two non-blank lines, the upload does nothing that can be observed: no
  callback, no alert, no console message, and the application state stays as it was. The
  normalizer is not called, since every call of it calls a callback or raises an alert.
\<close>

theorem short_text_upload_silent:
  assumes "\<not> isExcel name"
    and "length (filter (\<lambda>r. trim r \<noteq> []) (split_on CHR 0x0A content)) < 2"
  shows "handleFileUpload dtoa xlsx (Some (name, content)) = []
       \<and> foldl dispatch st (handleFileUpload dtoa xlsx (Some (name, content))) = st
       \<and> (\<forall>rawData. processImportedData dtoa rawData \<noteq> [])"
  using assms by (simp add: handleFileUpload_def handleTextLoaded_def Let_def
      processImportedData_nonempty)

theorem short_text_upload_silent_witness:
  "\<not> isExcel ''data.csv''
   \<and> length (filter (\<lambda>r. trim r \<noteq> [])
        (split_on CHR 0x0A (''SiO2,temp,viscosity'' @ [CHR 0x0A] @ ''  ''))) = 1
   \<and> handleFileUpload (\<lambda>x. []) (\<lambda>c. None)
        (Some (''data.csv'', ''SiO2,temp,viscosity'' @ [CHR 0x0A] @ ''  '')) = []"
proof -
  have l: "length (filter (\<lambda>r. trim r \<noteq> [])
        (split_on CHR 0x0A (''SiO2,temp,viscosity'' @ [CHR 0x0A] @ ''  ''))) = 1"
    by (simp only: ex_headers_only) simp
  then have l2: "length (filter (\<lambda>r. trim r \<noteq> [])
        (split_on CHR 0x0A (''SiO2,temp,viscosity'' @ [CHR 0x0A] @ ''  ''))) < 2"
    by simp
  from short_text_upload_silent [OF ex_not_excel l2, of "\<lambda>x. []" "\<lambda>c. None"]
  have "handleFileUpload (\<lambda>x. []) (\<lambda>c. None)
        (Some (''data.csv'', ''SiO2,temp,viscosity'' @ [CHR 0x0A] @ ''  '')) = []"
    by blast
  with ex_not_excel l show ?thesis by blast
qed

end
